theory Spec2Isabelle
  imports Complex_Main
begin

section \<open>JavaScript values\<close>

text \<open>
  The handlers and the UI component are TypeScript whose external data is typed
  \<open>any\<close>: request bodies, response bodies, local-storage contents and caught
  exceptions. Such data is modelled by the values JavaScript has at run time. A number is
  the value of its double, or one of the three non-finite doubles (the sign of zero is not
  kept: the program never distinguishes the two zeros). An object is the list of its own
  properties in insertion order; a later binding of a key overrides an earlier one.
\<close>

datatype jsnum = NaN | Infinity bool | Finite rat

datatype jsval =
    Undefined
  | Null
  | Bool bool
  | Num jsnum
  | Str string
  | Arr "jsval list"
  | Obj "(string \<times> jsval) list"

text \<open>
  Built-ins of the language whose result depends on the engine or on an algorithm outside
  the repository are parameters of the model: \<open>JSON.parse\<close> (\<open>Inl\<close> is the thrown
  SyntaxError), \<open>JSON.stringify\<close>, the conversion of a number to a string, and the
  TypeError object the engine throws when an operation (named by the property involved) is
  applied to a value that does not support it.
\<close>

record builtins =
  JSON_parse :: "string \<Rightarrow> jsval + jsval"
  JSON_stringify :: "jsval \<Rightarrow> string"
  Number_toString :: "jsnum \<Rightarrow> string"
  TypeError :: "string \<Rightarrow> jsval \<Rightarrow> jsval"

text \<open>Truthiness (\<open>ToBoolean\<close>), as tested by \<open>!x\<close>, \<open>x || y\<close>, \<open>x && y\<close> and \<open>if (x)\<close>.\<close>

fun truthy :: "jsval \<Rightarrow> bool" where
  "truthy Undefined = False"
| "truthy Null = False"
| "truthy (Bool b) = b"
| "truthy (Num NaN) = False"
| "truthy (Num (Infinity neg)) = True"
| "truthy (Num (Finite r)) = (r \<noteq> 0)"
| "truthy (Str s) = (s \<noteq> [])"
| "truthy (Arr xs) = True"
| "truthy (Obj kvs) = True"

text \<open>\<open>a || b\<close>\<close>

definition js_or :: "jsval \<Rightarrow> jsval \<Rightarrow> jsval" where
  "js_or a b = (if truthy a then a else b)"

fun nullish :: "jsval \<Rightarrow> bool" where
  "nullish Undefined = True"
| "nullish Null = True"
| "nullish v = False"

text \<open>
  \<open>v.p\<close> for a value that is not null or undefined. The program reads only properties that
  no built-in prototype defines (\<open>subscriptionId\<close>, \<open>amount\<close>, \<open>recipient\<close>,
  \<open>message\<close>, \<open>error\<close>, \<open>details\<close>, \<open>success\<close>, \<open>id\<close>, \<open>address\<close>,
  \<open>title\<close>, \<open>type\<close>), so on a primitive or an array the result is \<open>undefined\<close>.
\<close>

fun field :: "jsval \<Rightarrow> string \<Rightarrow> jsval" where
  "field (Obj kvs) p = (case map_of (rev kvs) p of None \<Rightarrow> Undefined | Some v \<Rightarrow> v)"
| "field v p = Undefined"

text \<open>\<open>v.p\<close> in general: reading a property of null or undefined throws a TypeError.\<close>

definition get :: "builtins \<Rightarrow> jsval \<Rightarrow> string \<Rightarrow> jsval + jsval" where
  "get js v p = (if nullish v then Inl (TypeError js p v) else Inr (field v p))"

text \<open>\<open>v?.p\<close>\<close>

definition get_optional :: "jsval \<Rightarrow> string \<Rightarrow> jsval" where
  "get_optional v p = (if nullish v then Undefined else field v p)"

fun typeof :: "jsval \<Rightarrow> string" where
  "typeof Undefined = ''undefined''"
| "typeof Null = ''object''"
| "typeof (Bool b) = ''boolean''"
| "typeof (Num n) = ''number''"
| "typeof (Str s) = ''string''"
| "typeof (Arr xs) = ''object''"
| "typeof (Obj kvs) = ''object''"

text \<open>An \<open>Error\<close> instance, as far as the program observes one: its \<open>message\<close>.\<close>

definition Error :: "string \<Rightarrow> jsval" where
  "Error m = Obj [(''message'', Str m)]"

fun sequence :: "(jsval + 'a) list \<Rightarrow> jsval + 'a list" where
  "sequence [] = Inr []"
| "sequence (Inl e # rs) = Inl e"
| "sequence (Inr x # rs) = (case sequence rs of Inl e \<Rightarrow> Inl e | Inr xs \<Rightarrow> Inr (x # xs))"

fun join :: "string list \<Rightarrow> string" where
  "join [] = []"
| "join [s] = s"
| "join (s # t # ts) = s @ '','' @ join (t # ts)"

text \<open>
  \<open>ToString\<close>, as a template literal and the \<open>Error\<close> constructor apply it. A plain
  object converts through \<open>Object.prototype.toString\<close> unless an own \<open>toString\<close>
  property (never callable in data) shadows it, in which case the conversion throws; an
  array joins the conversions of its elements, null and undefined elements giving the empty
  string.
\<close>

fun ToString :: "builtins \<Rightarrow> jsval \<Rightarrow> jsval + string" where
  "ToString js Undefined = Inr ''undefined''"
| "ToString js Null = Inr ''null''"
| "ToString js (Bool b) = Inr (if b then ''true'' else ''false'')"
| "ToString js (Num n) = Inr (Number_toString js n)"
| "ToString js (Str s) = Inr s"
| "ToString js (Arr xs) =
     (case sequence (map (\<lambda>x. if nullish x then Inr [] else ToString js x) xs) of
        Inl e \<Rightarrow> Inl e
      | Inr ss \<Rightarrow> Inr (join ss))"
| "ToString js (Obj kvs) =
     (if ''toString'' \<in> fst ` set kvs then Inl (TypeError js ''toString'' (Obj kvs))
      else Inr ''[object Object]'')"

text \<open>\<open>new Error(v)\<close> evaluated for throwing: the conversion of \<open>v\<close> may itself throw.\<close>

definition new_Error :: "builtins \<Rightarrow> jsval \<Rightarrow> jsval" where
  "new_Error js v =
     (if v = Undefined then Error []
      else case ToString js v of Inl e \<Rightarrow> e | Inr s \<Rightarrow> Error s)"

section \<open>Backend request handlers\<close>

text \<open>Sequencing of steps that may throw: the first exception ends the sequence.\<close>

definition and_then :: "jsval + 'a \<Rightarrow> ('a \<Rightarrow> jsval + 'b) \<Rightarrow> jsval + 'b" where
  "and_then r f = (case r of Inl e \<Rightarrow> Inl e | Inr x \<Rightarrow> f x)"

text \<open>
  \<open>process.env\<close>: the three credentials the handlers read, each a string or undefined.
\<close>

record env =
  CDP_API_KEY_ID :: "string option"
  CDP_API_KEY_SECRET :: "string option"
  CDP_WALLET_SECRET :: "string option"

definition env_value :: "string option \<Rightarrow> jsval" where
  "env_value x = (case x of None \<Rightarrow> Undefined | Some s \<Rightarrow> Str s)"

text \<open>
  A response built by \<open>NextResponse.json(body, {status})\<close>: the status and the value
  handed over for the body.
\<close>

record response =
  status :: nat
  body :: jsval

definition NextResponse_json :: "jsval \<Rightarrow> nat \<Rightarrow> response" where
  "NextResponse_json b s = \<lparr>status = s, body = b\<rparr>"

definition WALLET_NAME :: string where
  "WALLET_NAME = ''bbq-sub-v1''"

text \<open>
  The outcome of running a handler: the option objects passed to the platform operation,
  in order, and either the response returned (\<open>Inr\<close>) or the exception that left the
  handler uncaught (\<open>Inl\<close>).
\<close>

type_synonym outcome = "jsval list \<times> (jsval + response)"

text \<open>
  The \<open>catch\<close> block shared by the charge and the revoke handler, with its fallback
  message: \<open>error.message || fallback\<close> in a 500 response. Reading \<open>message\<close> of a
  thrown null or undefined throws again, out of the handler.
\<close>

definition catch_500 :: "builtins \<Rightarrow> string \<Rightarrow> jsval \<Rightarrow> jsval + response" where
  "catch_500 js fallback err =
     and_then (get js err ''message'') (\<lambda>m.
       Inr (NextResponse_json
             (Obj [(''success'', Bool False), (''error'', js_or m (Str fallback))]) 500))"

text \<open>
  The option object the charge handler builds: the fixed fields, and \<open>recipient\<close> added
  when the request's recipient is truthy.
\<close>

definition chargeOptions :: "env \<Rightarrow> jsval \<Rightarrow> jsval \<Rightarrow> jsval \<Rightarrow> jsval" where
  "chargeOptions e subscriptionId chargeAmount recipient =
     Obj ([(''id'', subscriptionId),
           (''amount'', chargeAmount),
           (''testnet'', Bool True),
           (''walletName'', Str WALLET_NAME),
           (''cdpApiKeyId'', env_value (CDP_API_KEY_ID e)),
           (''cdpApiKeySecret'', env_value (CDP_API_KEY_SECRET e)),
           (''cdpWalletSecret'', env_value (CDP_WALLET_SECRET e))]
          @ (if truthy recipient then [(''recipient'', recipient)] else []))"

text \<open>
  What the charge handler does with the platform's result: the \<open>console.log\<close> templates
  convert \<open>chargeResult.id\<close>, \<open>chargeResult.amount\<close> and, when truthy, the request's
  recipient to strings, in this order, and the response is built from the result's fields;
  \<open>...(x && {recipient: x})\<close> adds the recipient when it is truthy.
\<close>

definition charge_success :: "builtins \<Rightarrow> jsval \<Rightarrow> jsval \<Rightarrow> jsval + response" where
  "charge_success js recipient chargeResult =
     and_then (get js chargeResult ''id'') (\<lambda>transactionHash.
     and_then (ToString js transactionHash) (\<lambda>logged_id.
     and_then (ToString js (field chargeResult ''amount'')) (\<lambda>amount_text.
     and_then (if truthy recipient then ToString js recipient else Inr []) (\<lambda>logged_recipient.
       Inr (NextResponse_json
         (Obj ([(''success'', Bool True),
                (''transactionHash'', transactionHash),
                (''amount'', field chargeResult ''amount''),
                (''subscriptionOwner'', field chargeResult ''subscriptionOwner''),
                (''message'', Str (''Successfully charged $'' @ amount_text @ '' USDC'')),
                (''subscriptionId'', field chargeResult ''subscriptionId'')]
               @ (if truthy (field chargeResult ''recipient'')
                  then [(''recipient'', field chargeResult ''recipient'')] else [])))
         200)))))"

text \<open>
  \<open>POST\<close> of \<open>app/API/charge-subscription/route.ts\<close>. The arguments are the
  environment, the platform operation \<open>base.subscription.charge\<close> (\<open>Inl\<close> is the value
  it throws) and the result of \<open>request.json()\<close> (\<open>Inl\<close> when the body is not JSON).
  \<open>charge_try\<close> is the \<open>try\<close> block; destructuring the parsed body reads its three
  properties and throws when the body is null.
\<close>

definition charge_try ::
  "builtins \<Rightarrow> env \<Rightarrow> (jsval \<Rightarrow> jsval + jsval) \<Rightarrow> jsval + jsval \<Rightarrow> outcome" where
  "charge_try js e charge request_json =
     (case request_json of
        Inl err \<Rightarrow> ([], Inl err)
      | Inr b \<Rightarrow>
         (case get js b ''subscriptionId'' of
            Inl err \<Rightarrow> ([], Inl err)
          | Inr subscriptionId \<Rightarrow>
             (let amount = field b ''amount''; recipient = field b ''recipient'' in
              if \<not> truthy subscriptionId then
                ([], Inr (NextResponse_json (Obj [(''error'', Str ''Missing subscriptionId'')]) 400))
              else
                (let chargeAmount = js_or amount (Str ''1.00'');
                     options = chargeOptions e subscriptionId chargeAmount recipient
                 in ([options], and_then (charge options) (charge_success js recipient))))))"

definition POST_charge_subscription ::
  "builtins \<Rightarrow> env \<Rightarrow> (jsval \<Rightarrow> jsval + jsval) \<Rightarrow> jsval + jsval \<Rightarrow> outcome" where
  "POST_charge_subscription js e charge request_json =
     (case charge_try js e charge request_json of
        (calls, Inr r) \<Rightarrow> (calls, Inr r)
      | (calls, Inl err) \<Rightarrow> (calls, catch_500 js ''Failed to charge subscription'' err))"

text \<open>
  \<open>POST\<close> of \<open>app/API/revoke-subscription/route.ts\<close>. After the platform's revoke
  operation has returned, the \<open>console.log\<close> template converts the request's
  \<open>subscriptionId\<close> to a string, still inside the \<open>try\<close> block; the platform's revoke
  result is put into the response as it is.
\<close>

definition revokeOptions :: "env \<Rightarrow> jsval \<Rightarrow> jsval" where
  "revokeOptions e subscriptionId =
     Obj [(''id'', subscriptionId),
          (''testnet'', Bool True),
          (''walletName'', Str WALLET_NAME),
          (''cdpApiKeyId'', env_value (CDP_API_KEY_ID e)),
          (''cdpApiKeySecret'', env_value (CDP_API_KEY_SECRET e)),
          (''cdpWalletSecret'', env_value (CDP_WALLET_SECRET e))]"

definition revoke_try ::
  "builtins \<Rightarrow> env \<Rightarrow> (jsval \<Rightarrow> jsval + jsval) \<Rightarrow> jsval + jsval \<Rightarrow> outcome" where
  "revoke_try js e revoke request_json =
     (case request_json of
        Inl err \<Rightarrow> ([], Inl err)
      | Inr b \<Rightarrow>
         (case get js b ''subscriptionId'' of
            Inl err \<Rightarrow> ([], Inl err)
          | Inr subscriptionId \<Rightarrow>
              if \<not> truthy subscriptionId then
                ([], Inr (NextResponse_json (Obj [(''error'', Str ''Missing subscriptionId'')]) 400))
              else
                ([revokeOptions e subscriptionId],
                 and_then (revoke (revokeOptions e subscriptionId)) (\<lambda>revokeResult.
                 and_then (ToString js subscriptionId) (\<lambda>logged_id.
                   Inr (NextResponse_json
                     (Obj [(''success'', Bool True),
                           (''subscriptionId'', subscriptionId),
                           (''message'', Str ''Subscription revoked successfully''),
                           (''revokeResult'', revokeResult)])
                     200))))))"

definition POST_revoke_subscription ::
  "builtins \<Rightarrow> env \<Rightarrow> (jsval \<Rightarrow> jsval + jsval) \<Rightarrow> jsval + jsval \<Rightarrow> outcome" where
  "POST_revoke_subscription js e revoke request_json =
     (case revoke_try js e revoke request_json of
        (calls, Inr r) \<Rightarrow> (calls, Inr r)
      | (calls, Inl err) \<Rightarrow> (calls, catch_500 js ''Failed to revoke subscription'' err))"

text \<open>The status of the response a handler returned, when it returned one.\<close>

definition response_status :: "outcome \<Rightarrow> nat option" where
  "response_status x = (case snd x of Inl err \<Rightarrow> None | Inr r \<Rightarrow> Some (status r))"

section \<open>The subscription UI controller\<close>

subsection \<open>Component state\<close>

text \<open>
  \<open>SubscriptionStatus\<close> is the interface the component declares for what the platform's
  status operation resolves to; a \<open>Date\<close> is its time value in milliseconds.
\<close>

record SubscriptionStatus =
  isSubscribed :: bool
  remainingChargeInPeriod :: "string option"
  nextPeriodStart :: "int option"
  subscriptionOwner :: "string option"
  subscriptionPayer :: "string option"

text \<open>
  The eleven \<open>useState\<close> cells of \<open>SubscriptionManager\<close>. The wallet and the
  subscription are whatever \<open>JSON.parse\<close> or a response body delivered (\<open>Null\<close> when
  absent); the banner \<open>error\<close> is null, a string or an object; \<open>loading\<close> is the
  \<open>Record<string, boolean>\<close> of busy flags, a missing key reading as undefined.
\<close>

record state =
  wallet :: jsval
  subscription :: jsval
  subscriptionStatus :: "SubscriptionStatus option"
  loading :: "string \<rightharpoonup> bool"
  error :: jsval
  success :: jsval
  showBackendPanel :: bool
  subscriptionAmount :: string
  isEditingAmount :: bool
  chargeAmount :: string
  recipientAddress :: string

definition initial_state :: state where
  "initial_state =
     \<lparr>wallet = Null, subscription = Null, subscriptionStatus = None, loading = Map.empty,
      error = Null, success = Null, showBackendPanel = False, subscriptionAmount = ''29.99'',
      isEditingAmount = False, chargeAmount = ''1.00'', recipientAddress = []\<rparr>"

text \<open>\<open>loading.k\<close> in a boolean position.\<close>

definition busy :: "(string \<rightharpoonup> bool) \<Rightarrow> string \<Rightarrow> bool" where
  "busy l k = (l k = Some True)"

text \<open>
  What an operation leaves behind besides the state: requests to the backend handlers
  (the URL and the JSON text of the body, the method always being POST), calls of the
  platform's client-side operations with their option object, timers, and a rejection that
  no \<open>catch\<close> handled. A timer holds the call it will make: \<open>handleGetStatus\<close> of the
  render whose state is given, with its argument.
\<close>

datatype task = HandleGetStatus state jsval

datatype effect =
    Fetch string "string option"
  | Subscribe jsval
  | GetStatus jsval
  | SetTimeout task nat
  | UnhandledRejection jsval

record world =
  ui :: state
  localStorage :: "string \<rightharpoonup> string"
  out :: "effect list"

definition setWallet :: "jsval \<Rightarrow> world \<Rightarrow> world" where
  "setWallet v w = w\<lparr>ui := (ui w)\<lparr>wallet := v\<rparr>\<rparr>"

definition setSubscription :: "jsval \<Rightarrow> world \<Rightarrow> world" where
  "setSubscription v w = w\<lparr>ui := (ui w)\<lparr>subscription := v\<rparr>\<rparr>"

definition setSubscriptionStatus :: "SubscriptionStatus \<Rightarrow> world \<Rightarrow> world" where
  "setSubscriptionStatus v w = w\<lparr>ui := (ui w)\<lparr>subscriptionStatus := Some v\<rparr>\<rparr>"

definition setLoading :: "(string \<rightharpoonup> bool) \<Rightarrow> world \<Rightarrow> world" where
  "setLoading l w = w\<lparr>ui := (ui w)\<lparr>loading := l\<rparr>\<rparr>"

definition setError :: "jsval \<Rightarrow> world \<Rightarrow> world" where
  "setError v w = w\<lparr>ui := (ui w)\<lparr>error := v\<rparr>\<rparr>"

definition setSuccess :: "jsval \<Rightarrow> world \<Rightarrow> world" where
  "setSuccess v w = w\<lparr>ui := (ui w)\<lparr>success := v\<rparr>\<rparr>"

definition setItem :: "string \<Rightarrow> string \<Rightarrow> world \<Rightarrow> world" where
  "setItem k v w = w\<lparr>localStorage := (localStorage w)(k \<mapsto> v)\<rparr>"

definition removeItem :: "string \<Rightarrow> world \<Rightarrow> world" where
  "removeItem k w = w\<lparr>localStorage := (localStorage w)(k := None)\<rparr>"

definition emit :: "effect \<Rightarrow> world \<Rightarrow> world" where
  "emit x w = w\<lparr>out := out w @ [x]\<rparr>"

text \<open>
  What \<open>fetch\<close> settles to: a rejection, or a response with its status and the result of
  its \<open>json()\<close> (\<open>Inl\<close> when the body is not JSON). \<open>response.ok\<close> is a status from
  200 to 299.
\<close>

datatype fetch_result = Rejected jsval | Response nat "jsval + jsval"

definition ok :: "nat \<Rightarrow> bool" where
  "ok s = (200 \<le> s \<and> s \<le> 299)"

text \<open>
  Every operation is an \<open>async\<close> function with one \<open>await\<close> on the network. It is
  modelled in two parts: \<open>_begin\<close> runs up to the request, \<open>_resume\<close> runs from the
  settled request to the end. Both take the state \<open>c\<close> of the render that created the
  function (the values its closure reads) and the world they act on, which has moved on
  from \<open>c\<close> when other operations ran in between.

  The \<open>catch\<close> and \<open>finally\<close> blocks have the same shape in all five operations:
  \<open>setError(err.message || fallback)\<close>, then \<open>setLoading({...loading, key: false})\<close>
  with the closure's \<open>loading\<close>. In each \<open>try\<close> block the state is written only after
  the last step that may throw, so a \<open>try\<close> block yields either the thrown value or the
  world it produced.
\<close>

definition catch_finally ::
  "builtins \<Rightarrow> state \<Rightarrow> string \<Rightarrow> string \<Rightarrow> world \<Rightarrow> jsval + world \<Rightarrow> world" where
  "catch_finally js c key fallback w r =
     setLoading ((loading c)(key \<mapsto> False))
       (case r of
          Inr w' \<Rightarrow> w'
        | Inl err \<Rightarrow>
           (case get js err ''message'' of
              Inr m \<Rightarrow> setError (js_or m (Str fallback)) w
            | Inl e \<Rightarrow> emit (UnhandledRejection e) w))"

subsection \<open>Create Wallet\<close>

definition handleCreateWallet_begin :: "state \<Rightarrow> world \<Rightarrow> world" where
  "handleCreateWallet_begin c w =
     emit (Fetch ''/API/create-wallet'' None)
       (setSuccess Null (setError Null (setLoading ((loading c)(''wallet'' \<mapsto> True)) w)))"

definition handleCreateWallet_resume ::
  "builtins \<Rightarrow> state \<Rightarrow> fetch_result \<Rightarrow> world \<Rightarrow> world" where
  "handleCreateWallet_resume js c r w =
     catch_finally js c ''wallet'' ''Failed to create wallet'' w
       (case r of
          Rejected err \<Rightarrow> Inl err
        | Response s json \<Rightarrow>
            if \<not> ok s then Inl (new_Error js (Str ''Failed to create wallet''))
            else and_then json (\<lambda>data.
              Inr (setSuccess (Str ''Wallet created successfully!'')
                    (setItem ''bbq-wallet'' (JSON_stringify js data) (setWallet data w)))))"

subsection \<open>Create Subscription\<close>

definition handleCreateSubscription_begin :: "state \<Rightarrow> world \<Rightarrow> world" where
  "handleCreateSubscription_begin c w =
     (if \<not> truthy (wallet c) then setError (Str ''Please create a wallet first'') w
      else emit (Subscribe (Obj [(''recurringCharge'', Str (subscriptionAmount c)),
                                 (''subscriptionOwner'', field (wallet c) ''address''),
                                 (''periodInDays'', Num (Finite 30)),
                                 (''testnet'', Bool True)]))
             (setSuccess Null (setError Null
               (setLoading ((loading c)(''subscription'' \<mapsto> True)) w))))"

definition handleCreateSubscription_resume ::
  "builtins \<Rightarrow> state \<Rightarrow> jsval + jsval \<Rightarrow> world \<Rightarrow> world" where
  "handleCreateSubscription_resume js c r w =
     catch_finally js c ''subscription'' ''Failed to create subscription'' w
       (and_then r (\<lambda>result.
        and_then (get js result ''id'') (\<lambda>result_id.
          (let subscriptionData = Obj [(''id'', result_id),
                                       (''subscriptionPayer'', field result ''subscriptionPayer''),
                                       (''recurringCharge'', field result ''recurringCharge''),
                                       (''periodInDays'', field result ''periodInDays'')]
           in Inr (emit (SetTimeout (HandleGetStatus c result_id) 2000)
                    (setSuccess (Str ''Subscription created successfully!'')
                      (setItem ''bbq-subscription'' (JSON_stringify js subscriptionData)
                        (setSubscription subscriptionData w))))))))"

subsection \<open>Get Status\<close>

text \<open>\<open>subscriptionId || subscription?.id\<close>\<close>

definition status_id :: "state \<Rightarrow> jsval \<Rightarrow> jsval" where
  "status_id c arg = js_or arg (get_optional (subscription c) ''id'')"

definition handleGetStatus_begin :: "state \<Rightarrow> jsval \<Rightarrow> world \<Rightarrow> world" where
  "handleGetStatus_begin c arg w =
     (if \<not> truthy (status_id c arg) then setError (Str ''No subscription created yet'') w
      else emit (GetStatus (Obj [(''id'', status_id c arg), (''testnet'', Bool True)]))
             (setError Null (setLoading ((loading c)(''status'' \<mapsto> True)) w)))"

definition handleGetStatus_resume ::
  "builtins \<Rightarrow> state \<Rightarrow> jsval + SubscriptionStatus \<Rightarrow> world \<Rightarrow> world" where
  "handleGetStatus_resume js c r w =
     catch_finally js c ''status'' ''Failed to get subscription status'' w
       (and_then r (\<lambda>fetched. Inr (setSubscriptionStatus fetched w)))"

subsection \<open>Charge Subscription\<close>

definition handleChargeSubscription_begin :: "builtins \<Rightarrow> state \<Rightarrow> world \<Rightarrow> world" where
  "handleChargeSubscription_begin js c w =
     (if \<not> truthy (wallet c) \<or> \<not> truthy (subscription c)
      then setError (Str ''Please create a wallet and subscription first'') w
      else emit (Fetch ''/API/charge-subscription''
                   (Some (JSON_stringify js
                     (Obj [(''subscriptionId'', field (subscription c) ''id''),
                           (''amount'', Str (chargeAmount c)),
                           (''recipient'', js_or (Str (recipientAddress c)) Undefined)]))))
             (setSuccess Null (setError Null
               (setLoading ((loading c)(''charge'' \<mapsto> True)) w))))"

text \<open>
  The branch for a response that is not ok: a banner object for the literal
  \<open>Insufficient Gas\<close>, another for any other truthy \<open>error\<close>, and a thrown \<open>Error\<close>
  otherwise.
\<close>

definition charge_failure :: "builtins \<Rightarrow> jsval \<Rightarrow> world \<Rightarrow> jsval + world" where
  "charge_failure js data w =
     and_then (get js data ''error'') (\<lambda>data_error.
       if data_error = Str ''Insufficient Gas'' then
         Inr (setError (Obj [(''title'', data_error),
                             (''message'', field data ''message''),
                             (''details'', field data ''details''),
                             (''type'', Str ''gas'')]) w)
       else if truthy data_error then
         Inr (setError (Obj [(''title'', data_error),
                             (''message'', js_or (field data ''message'') data_error),
                             (''details'', field data ''details''),
                             (''type'', Str ''error'')]) w)
       else Inl (new_Error js (js_or data_error (Str ''Failed to charge subscription''))))"

definition charge_settled :: "builtins \<Rightarrow> state \<Rightarrow> jsval \<Rightarrow> world \<Rightarrow> jsval + world" where
  "charge_settled js c data w =
     and_then (get js data ''success'') (\<lambda>data_success.
       if truthy data_success then
         and_then (if truthy (field data ''message'') then Inr (field data ''message'')
                   else and_then (ToString js (field data ''amount''))
                          (\<lambda>t. Inr (Str (''Successfully charged $'' @ t)))) (\<lambda>text.
           Inr (emit (SetTimeout (HandleGetStatus c Undefined) 2000) (setSuccess text w)))
       else Inr (setError (js_or (field data ''message'')
                                 (Str ''Failed to charge subscription'')) w))"

definition handleChargeSubscription_resume ::
  "builtins \<Rightarrow> state \<Rightarrow> fetch_result \<Rightarrow> world \<Rightarrow> world" where
  "handleChargeSubscription_resume js c r w =
     catch_finally js c ''charge'' ''Failed to charge subscription'' w
       (case r of
          Rejected err \<Rightarrow> Inl err
        | Response s json \<Rightarrow>
            and_then json (\<lambda>data.
              if \<not> ok s then charge_failure js data w else charge_settled js c data w))"

subsection \<open>Revoke Subscription\<close>

definition handleRevokeSubscription_begin :: "builtins \<Rightarrow> state \<Rightarrow> world \<Rightarrow> world" where
  "handleRevokeSubscription_begin js c w =
     (if \<not> truthy (subscription c) then setError (Str ''No subscription to revoke'') w
      else emit (Fetch ''/API/revoke-subscription''
                   (Some (JSON_stringify js
                     (Obj [(''subscriptionId'', field (subscription c) ''id'')]))))
             (setSuccess Null (setError Null
               (setLoading ((loading c)(''revoke'' \<mapsto> True)) w))))"

definition handleRevokeSubscription_resume ::
  "builtins \<Rightarrow> state \<Rightarrow> fetch_result \<Rightarrow> world \<Rightarrow> world" where
  "handleRevokeSubscription_resume js c r w =
     catch_finally js c ''revoke'' ''Failed to revoke subscription'' w
       (case r of
          Rejected err \<Rightarrow> Inl err
        | Response s json \<Rightarrow>
            and_then json (\<lambda>data.
              if \<not> ok s then
                and_then (get js data ''error'') (\<lambda>data_error.
                  Inl (new_Error js (js_or data_error (Str ''Failed to revoke subscription''))))
              else
                Inr (emit (SetTimeout (HandleGetStatus c Undefined) 2000)
                      (setSuccess (Str (''Subscription revoked successfully! You can still ''
                          @ ''try to charge to validate the revoke took effect.'')) w))))"

text \<open>A timer that fires runs its call.\<close>

fun fire :: "task \<Rightarrow> world \<Rightarrow> world" where
  "fire (HandleGetStatus c arg) w = handleGetStatus_begin c arg w"

subsection \<open>The view\<close>

text \<open>
  The three backend buttons and the subscribe button carry a \<open>disabled\<close> attribute; a
  disabled button does not deliver its click. The backend buttons exist only while the
  backend panel is shown.
\<close>

definition createWallet_disabled :: "state \<Rightarrow> bool" where
  "createWallet_disabled s = (busy (loading s) ''wallet'' \<or> truthy (wallet s))"

definition chargeSubscription_disabled :: "state \<Rightarrow> bool" where
  "chargeSubscription_disabled s =
     (busy (loading s) ''charge'' \<or> \<not> truthy (wallet s) \<or> \<not> truthy (subscription s))"

definition revokeSubscription_disabled :: "state \<Rightarrow> bool" where
  "revokeSubscription_disabled s = (busy (loading s) ''revoke'' \<or> \<not> truthy (subscription s))"

definition createSubscription_disabled :: "state \<Rightarrow> bool" where
  "createSubscription_disabled s = (busy (loading s) ''subscription'' \<or> truthy (subscription s))"

definition click_createWallet :: "world \<Rightarrow> world" where
  "click_createWallet w =
     (if showBackendPanel (ui w) \<and> \<not> createWallet_disabled (ui w)
      then handleCreateWallet_begin (ui w) w else w)"

definition click_chargeSubscription :: "builtins \<Rightarrow> world \<Rightarrow> world" where
  "click_chargeSubscription js w =
     (if showBackendPanel (ui w) \<and> \<not> chargeSubscription_disabled (ui w)
      then handleChargeSubscription_begin js (ui w) w else w)"

text \<open>
  What React accepts as a child: text, numbers, and the values it renders as nothing
  (booleans, null, undefined), and arrays of such. Handed a plain object, it throws, and
  the component is not shown.
\<close>

fun renderable :: "jsval \<Rightarrow> bool" where
  "renderable (Obj kvs) = False"
| "renderable (Arr xs) = (\<forall>x \<in> set xs. renderable x)"
| "renderable v = True"

text \<open>
  \<open>wallet && (... {wallet.address} ...)\<close>: the address inside its element, or the falsy
  wallet itself left in place of the element.
\<close>

definition wallet_child :: "state \<Rightarrow> jsval" where
  "wallet_child s = (if truthy (wallet s) then field (wallet s) ''address'' else wallet s)"

text \<open>
  The children of type \<open>any\<close> that the component hands to React in a state, in document
  order: the wallet address in the backend panel; in the alert block the fields of an error
  object or the error itself, and the success text; in the status card the four fields of
  the subscription. A falsy value that \<open>&&\<close> leaves in place of an element is listed as
  itself. All other children are elements, strings of the component or booleans.
\<close>

definition children :: "state \<Rightarrow> jsval list" where
  "children s =
     (if showBackendPanel s then [wallet_child s] else [])
     @ (if truthy (js_or (error s) (success s)) then
          (if truthy (error s) \<and> typeof (error s) = ''object'' then
             [field (error s) ''title'', field (error s) ''message'', field (error s) ''details'',
              if field (error s) ''type'' = Str ''gas'' then wallet_child s else Bool False]
           else [error s])
          @ [success s]
        else [js_or (error s) (success s)])
     @ (if truthy (subscription s) then
          [field (subscription s) ''id'', field (subscription s) ''recurringCharge'',
           field (subscription s) ''periodInDays'', field (subscription s) ''subscriptionPayer'']
        else [])"

definition renders :: "state \<Rightarrow> bool" where
  "renders s = (\<forall>x \<in> set (children s). renderable x)"

text \<open>
  The error part of the alert block, when the component renders. The alert block exists
  when \<open>error || success\<close> is truthy. In it, a falsy error is left as it is; an error of
  type \<open>object\<close> shows its title and message, its details in a paragraph when truthy,
  and, when its type is \<open>gas\<close> and a wallet is present, a block with \<open>wallet.address\<close>;
  any other error is shown in a span. For the details and for the wallet block, \<open>Inr\<close> holds
  the value shown in the element and \<open>Inl\<close> the falsy value left in its place.
\<close>

record structured_banner =
  gas_style :: bool
  title :: jsval
  message :: jsval
  details :: "jsval + jsval"
  wallet_block :: "jsval + jsval"

datatype banner = Structured structured_banner | Plain jsval | Bare jsval

datatype 'a rendering = Throws | Renders 'a

definition error_banner :: "state \<Rightarrow> banner option rendering" where
  "error_banner s =
     (if \<not> renders s then Throws
      else Renders
        (if \<not> truthy (js_or (error s) (success s)) then None
         else if \<not> truthy (error s) then Some (Bare (error s))
         else if typeof (error s) = ''object'' then
           Some (Structured
             \<lparr>gas_style = (field (error s) ''type'' = Str ''gas''),
              title = field (error s) ''title'',
              message = field (error s) ''message'',
              details = (if truthy (field (error s) ''details'')
                         then Inr (field (error s) ''details'')
                         else Inl (field (error s) ''details'')),
              wallet_block = (if field (error s) ''type'' = Str ''gas''
                              then (if truthy (wallet s) then Inr (field (wallet s) ''address'')
                                    else Inl (wallet s))
                              else Inl (Bool False))\<rparr>)
         else Some (Plain (error s))))"

subsection \<open>Effects on mount and on a change of the subscription id\<close>

text \<open>
  The first effect, with no dependencies, runs once after the first render: it restores the
  wallet and the subscription from local storage. An empty stored string counts as absent;
  a wallet entry that does not parse is removed, a subscription entry that does not parse is
  left.
\<close>

definition restore_wallet :: "builtins \<Rightarrow> world \<Rightarrow> world" where
  "restore_wallet js w =
     (case localStorage w ''bbq-wallet'' of
        None \<Rightarrow> w
      | Some storedWallet \<Rightarrow>
          if storedWallet = [] then w
          else (case JSON_parse js storedWallet of
                  Inr parsedWallet \<Rightarrow> setWallet parsedWallet w
                | Inl err \<Rightarrow> removeItem ''bbq-wallet'' w))"

definition restore_subscription :: "builtins \<Rightarrow> world \<Rightarrow> world" where
  "restore_subscription js w =
     (case localStorage w ''bbq-subscription'' of
        None \<Rightarrow> w
      | Some storedSubscription \<Rightarrow>
          if storedSubscription = [] then w
          else (case JSON_parse js storedSubscription of
                  Inr parsedSubscription \<Rightarrow> setSubscription parsedSubscription w
                | Inl err \<Rightarrow> w))"

definition load_effect :: "builtins \<Rightarrow> world \<Rightarrow> world" where
  "load_effect js w = restore_subscription js (restore_wallet js w)"

text \<open>
  The second effect is \<open>checkStatus\<close>, with the single dependency \<open>subscription?.id\<close>.
  Its two \<open>setLoading\<close> calls are functional updates, so they act on the current flags,
  and its rejection is handled by nobody.
\<close>

definition status_dep :: "state \<Rightarrow> jsval" where
  "status_dep s = get_optional (subscription s) ''id''"

definition checkStatus_begin :: "state \<Rightarrow> world \<Rightarrow> world" where
  "checkStatus_begin c w =
     (if truthy (subscription c) \<and> subscriptionStatus c = None \<and> \<not> busy (loading c) ''status''
      then emit (GetStatus (Obj [(''id'', field (subscription c) ''id''), (''testnet'', Bool True)]))
             (setError Null (setLoading ((loading (ui w))(''status'' \<mapsto> True)) w))
      else w)"

definition checkStatus_resume :: "builtins \<Rightarrow> jsval + SubscriptionStatus \<Rightarrow> world \<Rightarrow> world" where
  "checkStatus_resume js r w =
     (let w1 = (case r of
                  Inr fetched \<Rightarrow> setSubscriptionStatus fetched w
                | Inl err \<Rightarrow>
                   (case get js err ''message'' of
                      Inr m \<Rightarrow> setError (js_or m (Str ''Failed to get subscription status'')) w
                    | Inl e \<Rightarrow> emit (UnhandledRejection e) w))
      in setLoading ((loading (ui w1))(''status'' \<mapsto> False)) w1)"

text \<open>
  Rendering after a state change. The renderer compares the dependency of the status effect
  with its value at the previous commit; the values compared here are strings or undefined,
  on which \<open>Object.is\<close> is equality. When it is unchanged no effect runs and the component
  is at rest; when it changed the effect runs with the state of this render, and what the
  effect set is rendered in turn.
\<close>

function render :: "jsval \<Rightarrow> world \<Rightarrow> world" where
  "render previous w =
     (if status_dep (ui w) = previous then w
      else render (status_dep (ui w)) (checkStatus_begin (ui w) w))"
  by pat_completeness auto
termination
  by (relation "measure (\<lambda>(previous, w). if status_dep (ui w) = previous then 0 else 1)")
     (auto simp: checkStatus_begin_def status_dep_def setError_def setLoading_def emit_def)

text \<open>
  Mounting the component: the first render shows the initial state, both effects run with
  it in their order of declaration, and the restored state is rendered.
\<close>

definition mount :: "builtins \<Rightarrow> (string \<rightharpoonup> string) \<Rightarrow> world" where
  "mount js store =
     render (status_dep initial_state)
       (checkStatus_begin initial_state
         (load_effect js \<lparr>ui = initial_state, localStorage = store, out = []\<rparr>))"

text \<open>The status request of the effect settles, and the component renders what it set.\<close>

definition settle :: "builtins \<Rightarrow> jsval + SubscriptionStatus \<Rightarrow> world \<Rightarrow> world" where
  "settle js r w = render (status_dep (ui w)) (checkStatus_resume js r w)"

fun is_GetStatus :: "effect \<Rightarrow> bool" where
  "is_GetStatus (GetStatus opts) = True"
| "is_GetStatus x = False"

subsection \<open>Operations run from start to end\<close>

text \<open>
  An operation invoked on the state on screen and run to its end with no other operation
  in between: when its first part issued a request, its second part runs on what the
  request settled to; when the guard turned it away, nothing follows.
\<close>

definition issued :: "world \<Rightarrow> world \<Rightarrow> bool" where
  "issued w w1 = (length (out w) < length (out w1))"

definition handleCreateWallet :: "builtins \<Rightarrow> fetch_result \<Rightarrow> world \<Rightarrow> world" where
  "handleCreateWallet js r w =
     handleCreateWallet_resume js (ui w) r (handleCreateWallet_begin (ui w) w)"

definition handleCreateSubscription :: "builtins \<Rightarrow> jsval + jsval \<Rightarrow> world \<Rightarrow> world" where
  "handleCreateSubscription js r w =
     (let w1 = handleCreateSubscription_begin (ui w) w
      in if issued w w1 then handleCreateSubscription_resume js (ui w) r w1 else w1)"

definition handleGetStatus ::
  "builtins \<Rightarrow> jsval \<Rightarrow> jsval + SubscriptionStatus \<Rightarrow> world \<Rightarrow> world" where
  "handleGetStatus js arg r w =
     (let w1 = handleGetStatus_begin (ui w) arg w
      in if issued w w1 then handleGetStatus_resume js (ui w) r w1 else w1)"

definition handleChargeSubscription :: "builtins \<Rightarrow> fetch_result \<Rightarrow> world \<Rightarrow> world" where
  "handleChargeSubscription js r w =
     (let w1 = handleChargeSubscription_begin js (ui w) w
      in if issued w w1 then handleChargeSubscription_resume js (ui w) r w1 else w1)"

definition handleRevokeSubscription :: "builtins \<Rightarrow> fetch_result \<Rightarrow> world \<Rightarrow> world" where
  "handleRevokeSubscription js r w =
     (let w1 = handleRevokeSubscription_begin js (ui w) w
      in if issued w w1 then handleRevokeSubscription_resume js (ui w) r w1 else w1)"

section \<open>Sample data\<close>

text \<open>
  Concrete values on which the results below are evaluated: an engine that parses and
  prints the few texts the examples store, an environment, platform operations with a fixed
  behaviour, request bodies and component states.
\<close>

definition wallet_A :: jsval where
  "wallet_A = Obj [(''address'', Str ''0xA11CE''), (''walletName'', Str ''bbq-sub-v1'')]"

definition wallet_B :: jsval where
  "wallet_B = Obj [(''address'', Str ''0xB0B''), (''walletName'', Str ''bbq-sub-v1'')]"

definition subscription_1 :: jsval where
  "subscription_1 =
     Obj [(''id'', Str ''0x5ub1''), (''subscriptionPayer'', Str ''0xPAYER''),
          (''recurringCharge'', Str ''29.99''), (''periodInDays'', Num (Finite 30))]"

definition subscription_1_text :: string where
  \<open>subscription_1_text =
     ''{"id":"0x5ub1","subscriptionPayer":"0xPAYER","recurringCharge":"29.99","periodInDays":30}''\<close>

definition wallet_B_text :: string where
  \<open>wallet_B_text = ''{"address":"0xB0B","walletName":"bbq-sub-v1"}''\<close>

definition charge_request_1 :: jsval where
  "charge_request_1 =
     Obj [(''subscriptionId'', Str ''0x5ub1''), (''amount'', Str ''1.00''),
          (''recipient'', Undefined)]"

definition charge_request_1_text :: string where
  \<open>charge_request_1_text = ''{"subscriptionId":"0x5ub1","amount":"1.00"}''\<close>

definition revoke_request_1 :: jsval where
  "revoke_request_1 = Obj [(''subscriptionId'', Str ''0x5ub1'')]"

definition revoke_request_1_text :: string where
  \<open>revoke_request_1_text = ''{"subscriptionId":"0x5ub1"}''\<close>

definition printed :: "(jsval \<times> string) list" where
  "printed =
     [(subscription_1, subscription_1_text), (wallet_B, wallet_B_text),
      (charge_request_1, charge_request_1_text), (revoke_request_1, revoke_request_1_text)]"

definition parsed :: "(string \<times> jsval) list" where
  "parsed =
     [(subscription_1_text, subscription_1), (wallet_B_text, wallet_B),
      (charge_request_1_text,
       Obj [(''subscriptionId'', Str ''0x5ub1''), (''amount'', Str ''1.00'')]),
      (revoke_request_1_text, revoke_request_1)]"

definition engine :: builtins where
  "engine =
     \<lparr>JSON_parse = (\<lambda>t. case map_of parsed t of
                            Some v \<Rightarrow> Inr v
                          | None \<Rightarrow> Inl (Error ''Unexpected token in JSON'')),
      JSON_stringify = (\<lambda>v. case map_of printed v of Some t \<Rightarrow> t | None \<Rightarrow> ''null''),
      Number_toString = (\<lambda>n. if n = Finite 30 then ''30'' else ''0''),
      TypeError = (\<lambda>p v. Error (''Cannot read properties of null (reading '' @ p @ '')''))\<rparr>"

definition env_0 :: env where
  "env_0 = \<lparr>CDP_API_KEY_ID = Some ''key-id'', CDP_API_KEY_SECRET = Some ''key-secret'',
            CDP_WALLET_SECRET = Some ''wallet-secret''\<rparr>"

definition request_empty_id :: jsval where
  "request_empty_id = Obj [(''subscriptionId'', Str [])]"

definition request_no_id :: jsval where
  "request_no_id = Obj [(''amount'', Str ''2.50'')]"

definition request_id_only :: jsval where
  "request_id_only = Obj [(''subscriptionId'', Str ''0x5ub1'')]"

definition charge_succeeds :: "jsval \<Rightarrow> jsval + jsval" where
  "charge_succeeds opts =
     Inr (Obj [(''id'', Str ''0x7x''), (''amount'', field opts ''amount''),
               (''subscriptionOwner'', Str ''0xA11CE''), (''subscriptionId'', field opts ''id'')])"

definition revoke_succeeds :: "jsval \<Rightarrow> jsval + jsval" where
  "revoke_succeeds opts = Inr (Obj [(''id'', Str ''0x7y''), (''subscriptionId'', field opts ''id'')])"

definition throws_with_message :: "jsval \<Rightarrow> jsval + jsval" where
  "throws_with_message opts = Inl (Error ''Subscription has been revoked'')"

definition throws_without_message :: "jsval \<Rightarrow> jsval + jsval" where
  "throws_without_message opts = Inl (Error [])"

definition status_active :: SubscriptionStatus where
  "status_active =
     \<lparr>isSubscribed = True, remainingChargeInPeriod = Some ''29.99'',
      nextPeriodStart = Some 1764547200000, subscriptionOwner = Some ''0xA11CE'',
      subscriptionPayer = Some ''0xPAYER''\<rparr>"

definition status_revoked :: SubscriptionStatus where
  "status_revoked =
     \<lparr>isSubscribed = False, remainingChargeInPeriod = None, nextPeriodStart = None,
      subscriptionOwner = None, subscriptionPayer = None\<rparr>"

definition world_fresh :: world where
  "world_fresh = \<lparr>ui = initial_state, localStorage = Map.empty, out = []\<rparr>"

definition world_subscribed :: world where
  "world_subscribed =
     \<lparr>ui = initial_state\<lparr>wallet := wallet_A, subscription := subscription_1,
                          subscriptionStatus := Some status_active, showBackendPanel := True\<rparr>,
      localStorage = [''bbq-subscription'' \<mapsto> subscription_1_text],
      out = []\<rparr>"

definition world_creating_wallet :: world where
  "world_creating_wallet =
     \<lparr>ui = initial_state\<lparr>wallet := wallet_A, loading := [''wallet'' \<mapsto> True],
                          showBackendPanel := True\<rparr>,
      localStorage = Map.empty,
      out = []\<rparr>"

definition store_subscription :: "string \<rightharpoonup> string" where
  "store_subscription = [''bbq-subscription'' \<mapsto> subscription_1_text]"

definition body_insufficient_gas :: jsval where
  "body_insufficient_gas =
     Obj [(''error'', Str ''Insufficient Gas''),
          (''message'', Str ''The server wallet has no ETH for gas'')]"

definition body_revoked :: jsval where
  "body_revoked = Obj [(''success'', Bool False), (''error'', Str ''Subscription has been revoked'')]"

definition body_no_error :: jsval where
  "body_no_error = Obj [(''success'', Bool False)]"

definition response_revoked :: response where
  "response_revoked = \<lparr>status = 500, body = body_revoked\<rparr>"

definition body_revoke_ok :: jsval where
  "body_revoke_ok =
     Obj [(''success'', Bool True), (''subscriptionId'', Str ''0x5ub1''),
          (''message'', Str ''Subscription revoked successfully''),
          (''revokeResult'', Obj [(''id'', Str ''0x7y''), (''subscriptionId'', Str ''0x5ub1'')])]"

definition world_revoked :: world where
  "world_revoked =
     handleRevokeSubscription engine (Response 200 (Inr body_revoke_ok)) world_subscribed"

definition world_refreshed :: world where
  "world_refreshed =
     handleGetStatus_resume engine (ui world_subscribed) (Inr status_revoked)
       (fire (HandleGetStatus (ui world_subscribed) Undefined) world_revoked)"

definition request_object_id :: jsval where
  "request_object_id = Obj [(''subscriptionId'', Obj [(''toString'', Str ''x'')])]"

definition world_panel :: world where
  "world_panel =
     \<lparr>ui = initial_state\<lparr>subscription := subscription_1, showBackendPanel := True\<rparr>,
      localStorage = [''bbq-subscription'' \<mapsto> subscription_1_text],
      out = []\<rparr>"

definition world_status_started :: world where
  "world_status_started = handleGetStatus_begin (ui world_panel) Undefined world_panel"

definition world_wallet_started :: world where
  "world_wallet_started = click_createWallet world_status_started"

definition world_status_done :: world where
  "world_status_done =
     handleGetStatus_resume engine (ui world_panel) (Inr status_active) world_wallet_started"

definition world_second_click :: world where
  "world_second_click = click_createWallet world_status_done"

definition throws_insufficient_gas :: "jsval \<Rightarrow> jsval + jsval" where
  "throws_insufficient_gas opts = Inl (Error ''Insufficient Gas'')"

definition response_gas :: response where
  "response_gas =
     \<lparr>status = 500, body = Obj [(''success'', Bool False), (''error'', Str ''Insufficient Gas'')]\<rparr>"

declare render.simps [simp del]

lemmas setters =
  setWallet_def setSubscription_def setSubscriptionStatus_def setLoading_def setError_def
  setSuccess_def setItem_def removeItem_def emit_def

lemmas sample_values =
  wallet_A_def wallet_B_def subscription_1_def charge_request_1_def revoke_request_1_def
  printed_def parsed_def engine_def initial_state_def

section \<open>Properties of the backend handlers\<close>

lemma get_not_nullish: "\<not> nullish v \<Longrightarrow> get js v p = Inr (field v p)"
  by (simp add: get_def)

lemma catch_500_not_nullish:
  "\<not> nullish err \<Longrightarrow>
   catch_500 js fallback err =
     Inr \<lparr>status = 500,
          body = Obj [(''success'', Bool False),
                      (''error'', if truthy (field err ''message'') then field err ''message''
                                  else Str fallback)]\<rparr>"
  by (simp add: catch_500_def get_not_nullish and_then_def NextResponse_json_def js_or_def)

lemma engine_TypeError_not_nullish: "\<not> nullish (TypeError engine p v)"
  by (simp add: engine_def Error_def)

lemma field_chargeOptions_amount: "field (chargeOptions e i a r) ''amount'' = a"
  by (simp add: chargeOptions_def)

lemma field_chargeOptions_id: "field (chargeOptions e i a r) ''id'' = i"
  by (simp add: chargeOptions_def)

lemma charge_try_falsy_id:
  "\<not> nullish b \<Longrightarrow> \<not> truthy (field b ''subscriptionId'') \<Longrightarrow>
   charge_try js e charge (Inr b) =
     ([], Inr \<lparr>status = 400, body = Obj [(''error'', Str ''Missing subscriptionId'')]\<rparr>)"
  by (simp add: charge_try_def get_not_nullish NextResponse_json_def)

lemma charge_try_truthy_id:
  "\<not> nullish b \<Longrightarrow> truthy (field b ''subscriptionId'') \<Longrightarrow>
   charge_try js e charge (Inr b) =
     ([chargeOptions e (field b ''subscriptionId'') (js_or (field b ''amount'') (Str ''1.00''))
         (field b ''recipient'')],
      and_then (charge (chargeOptions e (field b ''subscriptionId'')
                  (js_or (field b ''amount'') (Str ''1.00'')) (field b ''recipient'')))
        (charge_success js (field b ''recipient'')))"
  by (simp add: charge_try_def get_not_nullish Let_def)

lemma fst_POST_charge: "fst (POST_charge_subscription js e charge rq) = fst (charge_try js e charge rq)"
  by (simp add: POST_charge_subscription_def split: prod.splits sum.splits)

lemma POST_charge_unreadable:
  "\<not> nullish err \<Longrightarrow>
   POST_charge_subscription js e charge (Inl err) =
     ([], Inr \<lparr>status = 500,
              body = Obj [(''success'', Bool False),
                          (''error'', js_or (field err ''message'')
                                            (Str ''Failed to charge subscription''))]\<rparr>)"
  by (simp add: POST_charge_subscription_def charge_try_def catch_500_def get_not_nullish
        and_then_def NextResponse_json_def)

lemma POST_charge_null:
  "\<not> nullish (TypeError js ''subscriptionId'' Null) \<Longrightarrow>
   POST_charge_subscription js e charge (Inr Null) =
     ([], Inr \<lparr>status = 500,
              body = Obj [(''success'', Bool False),
                          (''error'', js_or (field (TypeError js ''subscriptionId'' Null) ''message'')
                                            (Str ''Failed to charge subscription''))]\<rparr>)"
  by (simp add: POST_charge_subscription_def charge_try_def catch_500_def get_def
        and_then_def NextResponse_json_def)

text \<open>
  C1, as the code has it. A request to the charge handler whose body parses to a JSON value
  other than null and lacks \<open>subscriptionId\<close>, or has the empty string for it, is answered
  with status 400 and a body holding an \<open>error\<close> field, and the platform's charge
  operation is not called. A request with a non-empty \<open>subscriptionId\<close> and no
  \<open>amount\<close> makes exactly one call of the charge operation, with the amount \<open>1.00\<close> and
  the request's id. A request whose body is null or is not JSON is answered by the
  \<open>catch\<close> block, with status 500 and the body \<open>{success: false, error}\<close>, the platform
  not being called either.
\<close>

theorem charge_validation_and_default_amount:
  "(\<not> nullish b \<and> (field b ''subscriptionId'' = Undefined \<or> field b ''subscriptionId'' = Str [])
      \<longrightarrow> POST_charge_subscription js e charge (Inr b) =
            ([], Inr \<lparr>status = 400, body = Obj [(''error'', Str ''Missing subscriptionId'')]\<rparr>))
   \<and> (truthy (field b' ''subscriptionId'') \<and> field b' ''amount'' = Undefined
      \<longrightarrow> (\<exists>opts. fst (POST_charge_subscription js e charge (Inr b')) = [opts]
                  \<and> field opts ''amount'' = Str ''1.00''
                  \<and> field opts ''id'' = field b' ''subscriptionId''))
   \<and> (\<not> nullish (TypeError js ''subscriptionId'' Null)
      \<longrightarrow> POST_charge_subscription js e charge (Inr Null) =
            ([], Inr \<lparr>status = 500,
                     body = Obj [(''success'', Bool False),
                                 (''error'',
                                  js_or (field (TypeError js ''subscriptionId'' Null) ''message'')
                                        (Str ''Failed to charge subscription''))]\<rparr>))
   \<and> (\<not> nullish err
      \<longrightarrow> POST_charge_subscription js e charge (Inl err) =
            ([], Inr \<lparr>status = 500,
                     body = Obj [(''success'', Bool False),
                                 (''error'', js_or (field err ''message'')
                                                   (Str ''Failed to charge subscription''))]\<rparr>))"
proof (intro conjI impI)
  assume h: "\<not> nullish b \<and> (field b ''subscriptionId'' = Undefined \<or> field b ''subscriptionId'' = Str [])"
  then have "\<not> truthy (field b ''subscriptionId'')" by auto
  with h show "POST_charge_subscription js e charge (Inr b) =
            ([], Inr \<lparr>status = 400, body = Obj [(''error'', Str ''Missing subscriptionId'')]\<rparr>)"
    by (simp add: POST_charge_subscription_def charge_try_falsy_id)
next
  assume h: "truthy (field b' ''subscriptionId'') \<and> field b' ''amount'' = Undefined"
  then have "\<not> nullish b'" by (cases b') auto
  with h have "fst (POST_charge_subscription js e charge (Inr b')) =
      [chargeOptions e (field b' ''subscriptionId'') (Str ''1.00'') (field b' ''recipient'')]"
    by (simp add: fst_POST_charge charge_try_truthy_id js_or_def)
  then show "\<exists>opts. fst (POST_charge_subscription js e charge (Inr b')) = [opts]
                  \<and> field opts ''amount'' = Str ''1.00''
                  \<and> field opts ''id'' = field b' ''subscriptionId''"
    by (simp add: field_chargeOptions_amount field_chargeOptions_id)
next
  assume "\<not> nullish (TypeError js ''subscriptionId'' Null)"
  then show "POST_charge_subscription js e charge (Inr Null) =
            ([], Inr \<lparr>status = 500,
                     body = Obj [(''success'', Bool False),
                                 (''error'',
                                  js_or (field (TypeError js ''subscriptionId'' Null) ''message'')
                                        (Str ''Failed to charge subscription''))]\<rparr>)"
    by (rule POST_charge_null)
next
  assume "\<not> nullish err"
  then show "POST_charge_subscription js e charge (Inl err) =
            ([], Inr \<lparr>status = 500,
                     body = Obj [(''success'', Bool False),
                                 (''error'', js_or (field err ''message'')
                                                   (Str ''Failed to charge subscription''))]\<rparr>)"
    by (rule POST_charge_unreadable)
qed

theorem charge_validation_and_default_amount_witness:
  "POST_charge_subscription engine env_0 charge_succeeds (Inr request_empty_id) =
     ([], Inr \<lparr>status = 400, body = Obj [(''error'', Str ''Missing subscriptionId'')]\<rparr>)
   \<and> (\<exists>opts. fst (POST_charge_subscription engine env_0 charge_succeeds (Inr request_id_only)) = [opts]
          \<and> field opts ''amount'' = Str ''1.00'' \<and> field opts ''id'' = Str ''0x5ub1'')
   \<and> response_status (POST_charge_subscription engine env_0 charge_succeeds (Inr Null)) = Some 500
   \<and> POST_charge_subscription engine env_0 charge_succeeds
        (Inl (Error ''Unexpected end of JSON input'')) =
       ([], Inr \<lparr>status = 500,
                body = Obj [(''success'', Bool False),
                            (''error'', Str ''Unexpected end of JSON input'')]\<rparr>)"
  using charge_validation_and_default_amount
          [where b = request_empty_id and b' = request_id_only and js = engine and e = env_0
             and charge = charge_succeeds and err = "Error ''Unexpected end of JSON input''"]
  by (simp add: request_empty_id_def request_id_only_def engine_TypeError_not_nullish
        Error_def js_or_def response_status_def)

text \<open>
  C1, as stated, fails. A request whose body is the JSON value null, or is not JSON at all,
  carries no \<open>subscriptionId\<close>, and is answered with status 500, not 400.
\<close>

theorem charge_unreadable_body_counterexample:
  "field Null ''subscriptionId'' = Undefined
   \<and> fst (POST_charge_subscription engine env_0 charge_succeeds (Inr Null)) = []
   \<and> response_status (POST_charge_subscription engine env_0 charge_succeeds (Inr Null)) = Some 500
   \<and> POST_charge_subscription engine env_0 charge_succeeds
        (Inl (Error ''Unexpected end of JSON input'')) =
       ([], Inr \<lparr>status = 500,
                body = Obj [(''success'', Bool False),
                            (''error'', Str ''Unexpected end of JSON input'')]\<rparr>)"
proof -
  have a: "fst (POST_charge_subscription engine env_0 charge_succeeds (Inr Null)) = []"
    "response_status (POST_charge_subscription engine env_0 charge_succeeds (Inr Null)) = Some 500"
    by (simp_all add: POST_charge_null engine_TypeError_not_nullish response_status_def)
  have b: "POST_charge_subscription engine env_0 charge_succeeds
        (Inl (Error ''Unexpected end of JSON input'')) =
       ([], Inr \<lparr>status = 500,
                body = Obj [(''success'', Bool False),
                            (''error'', Str ''Unexpected end of JSON input'')]\<rparr>)"
    by (simp add: POST_charge_unreadable Error_def js_or_def)
  show ?thesis using a b by simp
qed

lemma revoke_try_falsy_id:
  "\<not> nullish b \<Longrightarrow> \<not> truthy (field b ''subscriptionId'') \<Longrightarrow>
   revoke_try js e revoke (Inr b) =
     ([], Inr \<lparr>status = 400, body = Obj [(''error'', Str ''Missing subscriptionId'')]\<rparr>)"
  by (simp add: revoke_try_def get_not_nullish NextResponse_json_def)

lemma revoke_try_truthy_id:
  "\<not> nullish b \<Longrightarrow> truthy (field b ''subscriptionId'') \<Longrightarrow>
   revoke_try js e revoke (Inr b) =
     ([revokeOptions e (field b ''subscriptionId'')],
      and_then (revoke (revokeOptions e (field b ''subscriptionId''))) (\<lambda>revokeResult.
      and_then (ToString js (field b ''subscriptionId'')) (\<lambda>logged_id.
        Inr \<lparr>status = 200,
             body = Obj [(''success'', Bool True),
                         (''subscriptionId'', field b ''subscriptionId''),
                         (''message'', Str ''Subscription revoked successfully''),
                         (''revokeResult'', revokeResult)]\<rparr>)))"
  by (simp add: revoke_try_def get_not_nullish NextResponse_json_def)

lemma fst_POST_revoke: "fst (POST_revoke_subscription js e revoke rq) = fst (revoke_try js e revoke rq)"
  by (simp add: POST_revoke_subscription_def split: prod.splits sum.splits)

lemma POST_revoke_unreadable:
  "\<not> nullish err \<Longrightarrow>
   POST_revoke_subscription js e revoke (Inl err) =
     ([], Inr \<lparr>status = 500,
              body = Obj [(''success'', Bool False),
                          (''error'', js_or (field err ''message'')
                                            (Str ''Failed to revoke subscription''))]\<rparr>)"
  by (simp add: POST_revoke_subscription_def revoke_try_def catch_500_def get_not_nullish
        and_then_def NextResponse_json_def)

lemma POST_revoke_null:
  "\<not> nullish (TypeError js ''subscriptionId'' Null) \<Longrightarrow>
   POST_revoke_subscription js e revoke (Inr Null) =
     ([], Inr \<lparr>status = 500,
              body = Obj [(''success'', Bool False),
                          (''error'', js_or (field (TypeError js ''subscriptionId'' Null) ''message'')
                                            (Str ''Failed to revoke subscription''))]\<rparr>)"
  by (simp add: POST_revoke_subscription_def revoke_try_def catch_500_def get_def
        and_then_def NextResponse_json_def)

text \<open>
  C4, as the code has it. A request to the revoke handler whose body parses to a JSON value
  other than null and lacks \<open>subscriptionId\<close> is answered with status 400. When the id
  is present, the platform's revoke operation succeeds and the id converts to a string for
  the log line, the response body holds \<open>success: true\<close> and, under \<open>subscriptionId\<close>,
  the id of the request. A request whose body is null or is not JSON is answered by the
  \<open>catch\<close> block, with status 500.
\<close>

theorem revoke_validation_and_echo:
  "(\<not> nullish b \<and> field b ''subscriptionId'' = Undefined
      \<longrightarrow> POST_revoke_subscription js e revoke (Inr b) =
            ([], Inr \<lparr>status = 400, body = Obj [(''error'', Str ''Missing subscriptionId'')]\<rparr>))
   \<and> (truthy (field b' ''subscriptionId'')
        \<and> revoke (revokeOptions e (field b' ''subscriptionId'')) = Inr revokeResult
        \<and> ToString js (field b' ''subscriptionId'') = Inr logged
      \<longrightarrow> (\<exists>r. POST_revoke_subscription js e revoke (Inr b') =
                  ([revokeOptions e (field b' ''subscriptionId'')], Inr r)
               \<and> status r = 200
               \<and> field (body r) ''success'' = Bool True
               \<and> field (body r) ''subscriptionId'' = field b' ''subscriptionId''))
   \<and> (\<not> nullish (TypeError js ''subscriptionId'' Null)
      \<longrightarrow> POST_revoke_subscription js e revoke (Inr Null) =
            ([], Inr \<lparr>status = 500,
                     body = Obj [(''success'', Bool False),
                                 (''error'',
                                  js_or (field (TypeError js ''subscriptionId'' Null) ''message'')
                                        (Str ''Failed to revoke subscription''))]\<rparr>))
   \<and> (\<not> nullish err
      \<longrightarrow> POST_revoke_subscription js e revoke (Inl err) =
            ([], Inr \<lparr>status = 500,
                     body = Obj [(''success'', Bool False),
                                 (''error'', js_or (field err ''message'')
                                                   (Str ''Failed to revoke subscription''))]\<rparr>))"
proof (intro conjI impI)
  assume "\<not> nullish b \<and> field b ''subscriptionId'' = Undefined"
  then show "POST_revoke_subscription js e revoke (Inr b) =
            ([], Inr \<lparr>status = 400, body = Obj [(''error'', Str ''Missing subscriptionId'')]\<rparr>)"
    by (simp add: POST_revoke_subscription_def revoke_try_falsy_id)
next
  assume h: "truthy (field b' ''subscriptionId'')
        \<and> revoke (revokeOptions e (field b' ''subscriptionId'')) = Inr revokeResult
        \<and> ToString js (field b' ''subscriptionId'') = Inr logged"
  then have "\<not> nullish b'" by (cases b') auto
  with h have "POST_revoke_subscription js e revoke (Inr b') =
      ([revokeOptions e (field b' ''subscriptionId'')],
       Inr \<lparr>status = 200,
            body = Obj [(''success'', Bool True),
                        (''subscriptionId'', field b' ''subscriptionId''),
                        (''message'', Str ''Subscription revoked successfully''),
                        (''revokeResult'', revokeResult)]\<rparr>)"
    by (simp add: POST_revoke_subscription_def revoke_try_truthy_id and_then_def)
  then show "\<exists>r. POST_revoke_subscription js e revoke (Inr b') =
                  ([revokeOptions e (field b' ''subscriptionId'')], Inr r)
               \<and> status r = 200
               \<and> field (body r) ''success'' = Bool True
               \<and> field (body r) ''subscriptionId'' = field b' ''subscriptionId''"
    by simp
next
  assume "\<not> nullish (TypeError js ''subscriptionId'' Null)"
  then show "POST_revoke_subscription js e revoke (Inr Null) =
            ([], Inr \<lparr>status = 500,
                     body = Obj [(''success'', Bool False),
                                 (''error'',
                                  js_or (field (TypeError js ''subscriptionId'' Null) ''message'')
                                        (Str ''Failed to revoke subscription''))]\<rparr>)"
    by (rule POST_revoke_null)
next
  assume "\<not> nullish err"
  then show "POST_revoke_subscription js e revoke (Inl err) =
            ([], Inr \<lparr>status = 500,
                     body = Obj [(''success'', Bool False),
                                 (''error'', js_or (field err ''message'')
                                                   (Str ''Failed to revoke subscription''))]\<rparr>)"
    by (rule POST_revoke_unreadable)
qed

theorem revoke_validation_and_echo_witness:
  "POST_revoke_subscription engine env_0 revoke_succeeds (Inr request_no_id) =
     ([], Inr \<lparr>status = 400, body = Obj [(''error'', Str ''Missing subscriptionId'')]\<rparr>)
   \<and> (\<exists>r. POST_revoke_subscription engine env_0 revoke_succeeds (Inr request_id_only) =
             ([revokeOptions env_0 (Str ''0x5ub1'')], Inr r)
          \<and> status r = 200
          \<and> field (body r) ''success'' = Bool True
          \<and> field (body r) ''subscriptionId'' = Str ''0x5ub1'')
   \<and> response_status (POST_revoke_subscription engine env_0 revoke_succeeds (Inr Null)) = Some 500
   \<and> POST_revoke_subscription engine env_0 revoke_succeeds
        (Inl (Error ''Unexpected end of JSON input'')) =
       ([], Inr \<lparr>status = 500,
                body = Obj [(''success'', Bool False),
                            (''error'', Str ''Unexpected end of JSON input'')]\<rparr>)"
  using revoke_validation_and_echo
          [where b = request_no_id and b' = request_id_only and js = engine and e = env_0
             and revoke = revoke_succeeds
             and revokeResult = "Obj [(''id'', Str ''0x7y''), (''subscriptionId'', Str ''0x5ub1'')]"
             and logged = "''0x5ub1''" and err = "Error ''Unexpected end of JSON input''"]
  by (simp add: request_no_id_def request_id_only_def revoke_succeeds_def revokeOptions_def
        engine_TypeError_not_nullish Error_def js_or_def response_status_def)

text \<open>
  C4, as stated, fails. A request whose body is the JSON value null, or is not JSON,
  carries no \<open>subscriptionId\<close> and is answered with status 500, not 400. And for a
  request whose \<open>subscriptionId\<close> is an object with a \<open>toString\<close> property, the
  platform's revoke operation is called and succeeds, the log line then fails to convert
  the id, and the response has status 500.
\<close>

lemma POST_revoke_object_id:
  "POST_revoke_subscription js e revoke_succeeds (Inr request_object_id) =
     ([revokeOptions e (field request_object_id ''subscriptionId'')],
      catch_500 js ''Failed to revoke subscription''
        (TypeError js ''toString'' (field request_object_id ''subscriptionId'')))"
  by (simp add: POST_revoke_subscription_def revoke_try_truthy_id request_object_id_def
        revoke_succeeds_def and_then_def)

theorem revoke_not_echoed_counterexample:
  "field Null ''subscriptionId'' = Undefined
   \<and> fst (POST_revoke_subscription engine env_0 revoke_succeeds (Inr Null)) = []
   \<and> response_status (POST_revoke_subscription engine env_0 revoke_succeeds (Inr Null)) = Some 500
   \<and> POST_revoke_subscription engine env_0 revoke_succeeds
        (Inl (Error ''Unexpected end of JSON input'')) =
       ([], Inr \<lparr>status = 500,
                body = Obj [(''success'', Bool False),
                            (''error'', Str ''Unexpected end of JSON input'')]\<rparr>)
   \<and> truthy (field request_object_id ''subscriptionId'')
   \<and> revoke_succeeds (revokeOptions env_0 (field request_object_id ''subscriptionId'')) =
       Inr (Obj [(''id'', Str ''0x7y''),
                 (''subscriptionId'', field request_object_id ''subscriptionId'')])
   \<and> fst (POST_revoke_subscription engine env_0 revoke_succeeds (Inr request_object_id)) =
       [revokeOptions env_0 (field request_object_id ''subscriptionId'')]
   \<and> response_status (POST_revoke_subscription engine env_0 revoke_succeeds
        (Inr request_object_id)) = Some 500"
proof -
  have a: "fst (POST_revoke_subscription engine env_0 revoke_succeeds (Inr Null)) = []"
    "response_status (POST_revoke_subscription engine env_0 revoke_succeeds (Inr Null)) = Some 500"
    by (simp_all add: POST_revoke_null engine_TypeError_not_nullish response_status_def)
  have b: "POST_revoke_subscription engine env_0 revoke_succeeds
        (Inl (Error ''Unexpected end of JSON input'')) =
       ([], Inr \<lparr>status = 500,
                body = Obj [(''success'', Bool False),
                            (''error'', Str ''Unexpected end of JSON input'')]\<rparr>)"
    by (simp add: POST_revoke_unreadable Error_def js_or_def)
  have c: "truthy (field request_object_id ''subscriptionId'')"
    "revoke_succeeds (revokeOptions env_0 (field request_object_id ''subscriptionId'')) =
       Inr (Obj [(''id'', Str ''0x7y''),
                 (''subscriptionId'', field request_object_id ''subscriptionId'')])"
    by (simp_all add: request_object_id_def revoke_succeeds_def revokeOptions_def)
  have d: "fst (POST_revoke_subscription engine env_0 revoke_succeeds (Inr request_object_id)) =
       [revokeOptions env_0 (field request_object_id ''subscriptionId'')]"
    "response_status (POST_revoke_subscription engine env_0 revoke_succeeds
        (Inr request_object_id)) = Some 500"
    by (simp_all add: POST_revoke_object_id catch_500_not_nullish engine_TypeError_not_nullish
          response_status_def)
  show ?thesis using a b c d by simp
qed

lemma charge_try_calls:
  "charge_try js e charge rq = (calls, res) \<Longrightarrow> calls = [opts] \<Longrightarrow> charge opts = Inl err \<Longrightarrow>
   res = Inl err"
  by (auto simp: charge_try_def Let_def and_then_def split: sum.splits if_splits)

lemma revoke_try_calls:
  "revoke_try js e revoke rq = (calls, res) \<Longrightarrow> calls = [opts] \<Longrightarrow> revoke opts = Inl err \<Longrightarrow>
   res = Inl err"
  by (auto simp: revoke_try_def Let_def and_then_def split: sum.splits if_splits)

lemma POST_charge_id_only:
  "POST_charge_subscription js e charge (Inr request_id_only) =
     ([chargeOptions e (Str ''0x5ub1'') (Str ''1.00'') Undefined],
      case and_then (charge (chargeOptions e (Str ''0x5ub1'') (Str ''1.00'') Undefined))
             (charge_success js Undefined) of
        Inr r \<Rightarrow> Inr r
      | Inl err \<Rightarrow> catch_500 js ''Failed to charge subscription'' err)"
  by (simp add: POST_charge_subscription_def charge_try_truthy_id request_id_only_def js_or_def
           split: sum.splits)

lemma POST_revoke_id_only:
  "POST_revoke_subscription js e revoke (Inr request_id_only) =
     ([revokeOptions e (Str ''0x5ub1'')],
      case and_then (revoke (revokeOptions e (Str ''0x5ub1'')))
             (\<lambda>revokeResult. Inr \<lparr>status = 200,
             body = Obj [(''success'', Bool True),
                         (''subscriptionId'', Str ''0x5ub1''),
                         (''message'', Str ''Subscription revoked successfully''),
                         (''revokeResult'', revokeResult)]\<rparr>) of
        Inr r \<Rightarrow> Inr r
      | Inl err \<Rightarrow> catch_500 js ''Failed to revoke subscription'' err)"
  by (simp add: POST_revoke_subscription_def revoke_try_truthy_id request_id_only_def
           and_then_def split: sum.splits)

text \<open>
  C8, as the code has it. When the platform operation called by the charge or the revoke
  handler throws a value other than null or undefined, the handler returns a response with
  status 500 and body \<open>{success: false, error}\<close>, where \<open>error\<close> is the thrown value's
  \<open>message\<close> when that is truthy and the handler's own fallback text otherwise.
\<close>

theorem platform_exception_answered_500:
  "(fst (POST_charge_subscription js e charge rq) = [opts] \<and> charge opts = Inl err \<and> \<not> nullish err
      \<longrightarrow> snd (POST_charge_subscription js e charge rq) =
            Inr \<lparr>status = 500,
                 body = Obj [(''success'', Bool False),
                             (''error'', if truthy (field err ''message'') then field err ''message''
                                         else Str ''Failed to charge subscription'')]\<rparr>)
   \<and> (fst (POST_revoke_subscription js e revoke rq') = [opts'] \<and> revoke opts' = Inl err'
        \<and> \<not> nullish err'
      \<longrightarrow> snd (POST_revoke_subscription js e revoke rq') =
            Inr \<lparr>status = 500,
                 body = Obj [(''success'', Bool False),
                             (''error'', if truthy (field err' ''message'') then field err' ''message''
                                         else Str ''Failed to revoke subscription'')]\<rparr>)"
proof (intro conjI impI)
  assume h: "fst (POST_charge_subscription js e charge rq) = [opts] \<and> charge opts = Inl err \<and> \<not> nullish err"
  obtain calls res where t: "charge_try js e charge rq = (calls, res)"
    by (cases "charge_try js e charge rq")
  with h have "calls = [opts]" by (simp add: fst_POST_charge)
  with t h have "res = Inl err" using charge_try_calls by blast
  with t h show "snd (POST_charge_subscription js e charge rq) =
            Inr \<lparr>status = 500,
                 body = Obj [(''success'', Bool False),
                             (''error'', if truthy (field err ''message'') then field err ''message''
                                         else Str ''Failed to charge subscription'')]\<rparr>"
    by (simp add: POST_charge_subscription_def catch_500_not_nullish)
next
  assume h: "fst (POST_revoke_subscription js e revoke rq') = [opts'] \<and> revoke opts' = Inl err'
        \<and> \<not> nullish err'"
  obtain calls res where t: "revoke_try js e revoke rq' = (calls, res)"
    by (cases "revoke_try js e revoke rq'")
  with h have "calls = [opts']" by (simp add: fst_POST_revoke)
  with t h have "res = Inl err'" using revoke_try_calls by blast
  with t h show "snd (POST_revoke_subscription js e revoke rq') =
            Inr \<lparr>status = 500,
                 body = Obj [(''success'', Bool False),
                             (''error'', if truthy (field err' ''message'') then field err' ''message''
                                         else Str ''Failed to revoke subscription'')]\<rparr>"
    by (simp add: POST_revoke_subscription_def catch_500_not_nullish)
qed

theorem platform_exception_answered_500_witness:
  "snd (POST_charge_subscription engine env_0 throws_with_message (Inr request_id_only)) =
     Inr \<lparr>status = 500,
          body = Obj [(''success'', Bool False), (''error'', Str ''Subscription has been revoked'')]\<rparr>
   \<and> snd (POST_revoke_subscription engine env_0 throws_without_message (Inr request_id_only)) =
     Inr \<lparr>status = 500,
          body = Obj [(''success'', Bool False), (''error'', Str ''Failed to revoke subscription'')]\<rparr>"
  using platform_exception_answered_500
          [where js = engine and e = env_0 and charge = throws_with_message
             and rq = "Inr request_id_only"
             and opts = "chargeOptions env_0 (Str ''0x5ub1'') (Str ''1.00'') Undefined"
             and err = "Error ''Subscription has been revoked''"
             and revoke = throws_without_message and rq' = "Inr request_id_only"
             and opts' = "revokeOptions env_0 (Str ''0x5ub1'')" and err' = "Error []"]
  by (simp add: POST_charge_id_only POST_revoke_id_only throws_with_message_def
        throws_without_message_def Error_def)

text \<open>
  C8, as stated, fails: an exception with an empty message is not forwarded verbatim. The
  platform throws \<open>Error('')\<close>; the charge handler answers with its fallback text.
\<close>

theorem error_message_not_forwarded_counterexample:
  "throws_without_message (chargeOptions env_0 (Str ''0x5ub1'') (Str ''1.00'') Undefined) = Inl (Error [])
   \<and> POST_charge_subscription engine env_0 throws_without_message (Inr request_id_only) =
       ([chargeOptions env_0 (Str ''0x5ub1'') (Str ''1.00'') Undefined],
        Inr \<lparr>status = 500,
             body = Obj [(''success'', Bool False),
                         (''error'', Str ''Failed to charge subscription'')]\<rparr>)
   \<and> field (Error []) ''message'' = Str []
   \<and> Str ''Failed to charge subscription'' \<noteq> field (Error []) ''message''"
  by (simp add: POST_charge_id_only throws_without_message_def and_then_def Error_def
        catch_500_not_nullish)

section \<open>Properties of the UI controller\<close>

lemma get_Error: "get js (Error m) ''message'' = Inr (Str m)"
  by (simp add: get_def Error_def)

lemma new_Error_Str: "new_Error js (Str m) = Error m"
  by (simp add: new_Error_def)

lemma catch_finally_Inr:
  "catch_finally js c key fallback w (Inr w') = setLoading ((loading c)(key \<mapsto> False)) w'"
  by (simp add: catch_finally_def)

lemma catch_finally_Inl:
  "\<not> nullish err \<Longrightarrow>
   catch_finally js c key fallback w (Inl err) =
     setLoading ((loading c)(key \<mapsto> False))
       (setError (js_or (field err ''message'') (Str fallback)) w)"
  by (simp add: catch_finally_def get_not_nullish)

lemma catch_finally_Error:
  "m \<noteq> [] \<Longrightarrow>
   catch_finally js c key fallback w (Inl (Error m)) =
     setLoading ((loading c)(key \<mapsto> False)) (setError (Str m) w)"
  by (simp add: catch_finally_def get_Error js_or_def)

lemma handleChargeSubscription_begin_guarded:
  "truthy (wallet c) \<Longrightarrow> truthy (subscription c) \<Longrightarrow>
   handleChargeSubscription_begin js c w =
     emit (Fetch ''/API/charge-subscription''
             (Some (JSON_stringify js
               (Obj [(''subscriptionId'', field (subscription c) ''id''),
                     (''amount'', Str (chargeAmount c)),
                     (''recipient'', js_or (Str (recipientAddress c)) Undefined)]))))
       (setSuccess Null (setError Null (setLoading ((loading c)(''charge'' \<mapsto> True)) w)))"
  by (simp add: handleChargeSubscription_begin_def)

lemma handleChargeSubscription_guarded:
  "truthy (wallet (ui w)) \<Longrightarrow> truthy (subscription (ui w)) \<Longrightarrow>
   handleChargeSubscription js r w =
     handleChargeSubscription_resume js (ui w) r (handleChargeSubscription_begin js (ui w) w)"
  by (simp add: handleChargeSubscription_def handleChargeSubscription_begin_guarded Let_def
        issued_def setters)

lemma charge_failure_cases:
  "\<not> nullish data \<Longrightarrow>
   charge_failure js data w =
     (if field data ''error'' = Str ''Insufficient Gas'' then
        Inr (setError (Obj [(''title'', Str ''Insufficient Gas''),
                            (''message'', field data ''message''),
                            (''details'', field data ''details''),
                            (''type'', Str ''gas'')]) w)
      else if truthy (field data ''error'') then
        Inr (setError (Obj [(''title'', field data ''error''),
                            (''message'', js_or (field data ''message'') (field data ''error'')),
                            (''details'', field data ''details''),
                            (''type'', Str ''error'')]) w)
      else Inl (Error ''Failed to charge subscription''))"
  by (simp add: charge_failure_def get_not_nullish and_then_def js_or_def new_Error_Str)

lemma handleChargeSubscription_failure:
  assumes "truthy (wallet (ui w))" "truthy (subscription (ui w))" "\<not> ok s" "\<not> nullish data"
  shows "ui (handleChargeSubscription js (Response s (Inr data)) w) =
     (ui w)\<lparr>loading := (loading (ui w))(''charge'' \<mapsto> False), success := Null,
       error :=
         (if field data ''error'' = Str ''Insufficient Gas'' then
            Obj [(''title'', Str ''Insufficient Gas''),
                 (''message'', field data ''message''),
                 (''details'', field data ''details''),
                 (''type'', Str ''gas'')]
          else if truthy (field data ''error'') then
            Obj [(''title'', field data ''error''),
                 (''message'', js_or (field data ''message'') (field data ''error'')),
                 (''details'', field data ''details''),
                 (''type'', Str ''error'')]
          else Str ''Failed to charge subscription'')\<rparr>"
  using assms
  by (simp add: handleChargeSubscription_guarded handleChargeSubscription_resume_def
        handleChargeSubscription_begin_guarded and_then_def charge_failure_cases
        catch_finally_Inr catch_finally_Error setters)

lemma charge_success_status: "charge_success js recipient chargeResult = Inr r \<Longrightarrow> status r = 200"
  by (auto simp: charge_success_def and_then_def NextResponse_json_def split: sum.splits if_splits)

lemma charge_try_response:
  "charge_try js e charge rq = (calls, Inr r) \<Longrightarrow>
   status r = 200 \<or> (status r = 400 \<and> body r = Obj [(''error'', Str ''Missing subscriptionId'')])"
  by (auto simp: charge_try_def Let_def and_then_def NextResponse_json_def
           dest: charge_success_status split: sum.splits if_splits)

lemma catch_500_response:
  "catch_500 js fallback err = Inr r \<Longrightarrow> fallback \<noteq> [] \<Longrightarrow>
   status r = 500 \<and> (\<exists>m. truthy m \<and> body r = Obj [(''success'', Bool False), (''error'', m)])"
  by (auto simp: catch_500_def and_then_def NextResponse_json_def js_or_def split: sum.splits)

lemma charge_failure_response:
  assumes "snd (POST_charge_subscription js e charge rq) = Inr r" "status r \<noteq> 200"
  shows "(status r = 400 \<and> body r = Obj [(''error'', Str ''Missing subscriptionId'')])
       \<or> (status r = 500 \<and> (\<exists>m. truthy m \<and> body r = Obj [(''success'', Bool False), (''error'', m)]))"
proof -
  obtain calls res where t: "charge_try js e charge rq = (calls, res)"
    by (cases "charge_try js e charge rq")
  show ?thesis
  proof (cases res)
    case (Inr r')
    with t assms have "r' = r" by (simp add: POST_charge_subscription_def)
    with t Inr assms(2) show ?thesis using charge_try_response by blast
  next
    case (Inl err)
    with t assms have "catch_500 js ''Failed to charge subscription'' err = Inr r"
      by (simp add: POST_charge_subscription_def)
    then show ?thesis using catch_500_response by blast
  qed
qed

lemma falsy_renderable: "\<not> truthy v \<Longrightarrow> renderable v"
  by (cases v) auto

lemma renders_wallet_child: "renders s \<Longrightarrow> showBackendPanel s \<Longrightarrow> renderable (wallet_child s)"
  by (simp add: renders_def children_def)

lemma renders_subscription:
  "renders s \<Longrightarrow> truthy (subscription s) \<Longrightarrow>
   renderable (field (subscription s) ''id'')
   \<and> renderable (field (subscription s) ''recurringCharge'')
   \<and> renderable (field (subscription s) ''periodInDays'')
   \<and> renderable (field (subscription s) ''subscriptionPayer'')"
  by (simp add: renders_def children_def)

text \<open>
  After an operation that left the panel flag, the wallet and the subscription as they were,
  cleared the success banner and set a truthy error, the component renders when it rendered
  before and the children of the new error are renderable.
\<close>

lemma renders_after_error:
  assumes "renders s" and "truthy (subscription s)" and "truthy err"
    and "typeof err = ''object'' \<longrightarrow>
           renderable (field err ''title'') \<and> renderable (field err ''message'')
         \<and> renderable (field err ''details'')
         \<and> (field err ''type'' = Str ''gas'' \<longrightarrow> renderable (wallet_child s))"
    and "typeof err \<noteq> ''object'' \<longrightarrow> renderable err"
  shows "renders (s\<lparr>loading := l, success := Null, error := err\<rparr>)"
proof -
  have sub: "renderable (field (subscription s) ''id'')
   \<and> renderable (field (subscription s) ''recurringCharge'')
   \<and> renderable (field (subscription s) ''periodInDays'')
   \<and> renderable (field (subscription s) ''subscriptionPayer'')"
    using assms(1,2) by (rule renders_subscription)
  have panel: "showBackendPanel s \<longrightarrow> renderable (wallet_child s)"
    using assms(1) by (simp add: renders_wallet_child)
  have wc: "wallet_child (s\<lparr>loading := l, success := Null, error := err\<rparr>) = wallet_child s"
    by (simp add: wallet_child_def)
  show ?thesis
    using assms(2-5) sub panel
    by (simp add: renders_def children_def wc js_or_def)
qed

lemma charge_response_gas:
  assumes "snd (POST_charge_subscription js e charge rq) = Inr r" and "status r \<noteq> 200"
    and "field (body r) ''error'' = Str ''Insufficient Gas''"
  shows "status r = 500
    \<and> body r = Obj [(''success'', Bool False), (''error'', Str ''Insufficient Gas'')]"
proof -
  have "(status r = 400 \<and> body r = Obj [(''error'', Str ''Missing subscriptionId'')])
       \<or> (status r = 500 \<and> (\<exists>m. truthy m \<and> body r = Obj [(''success'', Bool False), (''error'', m)]))"
    using assms(1,2) by (rule charge_failure_response)
  with assms(3) show ?thesis by auto
qed

text \<open>
  C2. The charge operation runs on a state with a wallet and a subscription and receives a
  response that is not ok. When the \<open>error\<close> field of the body is the literal
  \<open>Insufficient Gas\<close>, the banner object has type \<open>gas\<close>; and when the component was on
  screen with its backend panel, where the charge button is, the banner is rendered with a
  block showing the address of the current wallet: for every such response of the charge
  handler, and for any such body whose \<open>message\<close> and \<open>details\<close> React can render. When
  the \<open>error\<close> field is any other truthy value, the banner object has type \<open>error\<close>.
  When the body has no \<open>error\<close> field, the banner is the message of the thrown error, a
  plain string.
\<close>

theorem charge_failure_banner:
  assumes "truthy (wallet (ui w))" and "truthy (subscription (ui w))" and "\<not> ok s"
  shows
   "(field gas ''error'' = Str ''Insufficient Gas'' \<longrightarrow>
       field (error (ui (handleChargeSubscription js (Response s (Inr gas)) w))) ''type'' = Str ''gas''
     \<and> (renders (ui w) \<and> showBackendPanel (ui w)
          \<and> renderable (field gas ''message'') \<and> renderable (field gas ''details'') \<longrightarrow>
         error_banner (ui (handleChargeSubscription js (Response s (Inr gas)) w)) =
           Renders (Some (Structured
             \<lparr>gas_style = True, title = Str ''Insufficient Gas'',
              message = field gas ''message'',
              details = (if truthy (field gas ''details'') then Inr (field gas ''details'')
                         else Inl (field gas ''details'')),
              wallet_block = Inr (field (wallet (ui w)) ''address'')\<rparr>))))
    \<and> (truthy (field other ''error'') \<and> field other ''error'' \<noteq> Str ''Insufficient Gas'' \<longrightarrow>
       field (error (ui (handleChargeSubscription js (Response s (Inr other)) w))) ''type'' = Str ''error'')
    \<and> (\<not> nullish none \<and> field none ''error'' = Undefined \<longrightarrow>
       error (ui (handleChargeSubscription js (Response s (Inr none)) w)) =
         Str ''Failed to charge subscription''
     \<and> (renders (ui w) \<longrightarrow>
         error_banner (ui (handleChargeSubscription js (Response s (Inr none)) w)) =
           Renders (Some (Plain (Str ''Failed to charge subscription'')))))
    \<and> (snd (POST_charge_subscription js' e charge rq) = Inr r \<and> status r \<noteq> 200
        \<and> field (body r) ''error'' = Str ''Insufficient Gas''
        \<and> renders (ui w) \<and> showBackendPanel (ui w) \<longrightarrow>
       error_banner (ui (handleChargeSubscription js (Response (status r) (Inr (body r))) w)) =
         Renders (Some (Structured
           \<lparr>gas_style = True, title = Str ''Insufficient Gas'', message = Undefined,
            details = Inl Undefined,
            wallet_block = Inr (field (wallet (ui w)) ''address'')\<rparr>)))"
proof (intro conjI impI)
  assume g: "field gas ''error'' = Str ''Insufficient Gas''"
  then have nn: "\<not> nullish gas" by (cases gas) auto
  show "field (error (ui (handleChargeSubscription js (Response s (Inr gas)) w))) ''type'' = Str ''gas''"
    using assms g nn by (simp add: handleChargeSubscription_failure)
  assume r: "renders (ui w) \<and> showBackendPanel (ui w)
          \<and> renderable (field gas ''message'') \<and> renderable (field gas ''details'')"
  then have wc: "renderable (wallet_child (ui w))" by (simp add: renders_wallet_child)
  let ?err = "Obj [(''title'', Str ''Insufficient Gas''), (''message'', field gas ''message''),
                   (''details'', field gas ''details''), (''type'', Str ''gas'')]"
  have "renders ((ui w)\<lparr>loading := (loading (ui w))(''charge'' \<mapsto> False), success := Null,
                        error := ?err\<rparr>)"
    using r assms(2) wc by (intro renders_after_error) simp_all
  then show "error_banner (ui (handleChargeSubscription js (Response s (Inr gas)) w)) =
           Renders (Some (Structured
             \<lparr>gas_style = True, title = Str ''Insufficient Gas'',
              message = field gas ''message'',
              details = (if truthy (field gas ''details'') then Inr (field gas ''details'')
                         else Inl (field gas ''details'')),
              wallet_block = Inr (field (wallet (ui w)) ''address'')\<rparr>))"
    using assms g nn by (simp add: handleChargeSubscription_failure error_banner_def js_or_def)
next
  assume o: "truthy (field other ''error'') \<and> field other ''error'' \<noteq> Str ''Insufficient Gas''"
  then have nn: "\<not> nullish other" by (cases other) auto
  show "field (error (ui (handleChargeSubscription js (Response s (Inr other)) w))) ''type'' = Str ''error''"
    using assms o nn by (simp add: handleChargeSubscription_failure)
next
  assume n: "\<not> nullish none \<and> field none ''error'' = Undefined"
  show "error (ui (handleChargeSubscription js (Response s (Inr none)) w)) =
         Str ''Failed to charge subscription''"
    using assms n by (simp add: handleChargeSubscription_failure)
  assume r: "renders (ui w)"
  have "renders ((ui w)\<lparr>loading := (loading (ui w))(''charge'' \<mapsto> False), success := Null,
                        error := Str ''Failed to charge subscription''\<rparr>)"
    using r assms(2) by (intro renders_after_error) simp_all
  then show "error_banner (ui (handleChargeSubscription js (Response s (Inr none)) w)) =
           Renders (Some (Plain (Str ''Failed to charge subscription'')))"
    using assms n by (simp add: handleChargeSubscription_failure error_banner_def js_or_def)
next
  assume h: "snd (POST_charge_subscription js' e charge rq) = Inr r \<and> status r \<noteq> 200
        \<and> field (body r) ''error'' = Str ''Insufficient Gas''
        \<and> renders (ui w) \<and> showBackendPanel (ui w)"
  then have shape: "status r = 500
    \<and> body r = Obj [(''success'', Bool False), (''error'', Str ''Insufficient Gas'')]"
    using charge_response_gas by blast
  then have f: "\<not> ok (status r)" "\<not> nullish (body r)" "field (body r) ''message'' = Undefined"
    "field (body r) ''details'' = Undefined"
    by (simp_all add: ok_def)
  from h have wc: "renderable (wallet_child (ui w))" by (simp add: renders_wallet_child)
  let ?err = "Obj [(''title'', Str ''Insufficient Gas''), (''message'', Undefined),
                   (''details'', Undefined), (''type'', Str ''gas'')]"
  have "renders ((ui w)\<lparr>loading := (loading (ui w))(''charge'' \<mapsto> False), success := Null,
                        error := ?err\<rparr>)"
    using h assms(2) wc by (intro renders_after_error) simp_all
  then show "error_banner (ui (handleChargeSubscription js (Response (status r) (Inr (body r))) w)) =
         Renders (Some (Structured
           \<lparr>gas_style = True, title = Str ''Insufficient Gas'', message = Undefined,
            details = Inl Undefined,
            wallet_block = Inr (field (wallet (ui w)) ''address'')\<rparr>))"
    using assms(1,2) h f
    by (simp add: handleChargeSubscription_failure error_banner_def js_or_def)
qed

theorem charge_failure_banner_witness:
  "field (error (ui (handleChargeSubscription engine (Response 500 (Inr body_insufficient_gas))
       world_subscribed))) ''type'' = Str ''gas''
   \<and> error_banner (ui (handleChargeSubscription engine (Response 500 (Inr body_insufficient_gas))
       world_subscribed)) =
       Renders (Some (Structured
         \<lparr>gas_style = True, title = Str ''Insufficient Gas'',
          message = Str ''The server wallet has no ETH for gas'',
          details = Inl Undefined, wallet_block = Inr (Str ''0xA11CE'')\<rparr>))
   \<and> field (error (ui (handleChargeSubscription engine (Response 500 (Inr body_revoked))
       world_subscribed))) ''type'' = Str ''error''
   \<and> error (ui (handleChargeSubscription engine (Response 500 (Inr body_no_error))
       world_subscribed)) = Str ''Failed to charge subscription''
   \<and> error_banner (ui (handleChargeSubscription engine (Response 500 (Inr body_no_error))
       world_subscribed)) = Renders (Some (Plain (Str ''Failed to charge subscription'')))
   \<and> error_banner (ui (handleChargeSubscription engine
        (Response (status response_gas) (Inr (body response_gas))) world_subscribed)) =
       Renders (Some (Structured
         \<lparr>gas_style = True, title = Str ''Insufficient Gas'', message = Undefined,
          details = Inl Undefined, wallet_block = Inr (Str ''0xA11CE'')\<rparr>))"
  using charge_failure_banner
          [where w = world_subscribed and s = 500 and js = engine
             and gas = body_insufficient_gas and other = body_revoked and none = body_no_error
             and js' = engine and e = env_0 and charge = throws_insufficient_gas
             and rq = "Inr request_id_only" and r = response_gas]
  by (simp add: world_subscribed_def wallet_A_def subscription_1_def ok_def
        body_insufficient_gas_def body_revoked_def body_no_error_def initial_state_def
        renders_def children_def wallet_child_def js_or_def
        POST_charge_id_only throws_insufficient_gas_def and_then_def Error_def
        catch_500_not_nullish response_gas_def)

lemma handleCreateWallet_begin_out:
  "out (handleCreateWallet_begin c w) = out w @ [Fetch ''/API/create-wallet'' None]"
  by (simp add: handleCreateWallet_begin_def setters)

text \<open>
  C3, as the code has it. The Create Wallet operation has no guard of its own: invoked in
  any state, it sends the request to the wallet-provisioning handler. The only guard is the
  \<open>disabled\<close> attribute of its button: a click on the button changes nothing while the
  \<open>loading.wallet\<close> flag is set or a wallet is present, and invokes the operation
  otherwise.
\<close>

theorem create_wallet_guarded_by_button_only:
  "(busy (loading (ui w)) ''wallet'' \<or> truthy (wallet (ui w)) \<longrightarrow> click_createWallet w = w)
   \<and> (showBackendPanel (ui v) \<and> \<not> busy (loading (ui v)) ''wallet'' \<and> \<not> truthy (wallet (ui v))
        \<longrightarrow> click_createWallet v = handleCreateWallet_begin (ui v) v)
   \<and> out (handleCreateWallet_begin c w') = out w' @ [Fetch ''/API/create-wallet'' None]"
  by (simp add: click_createWallet_def createWallet_disabled_def handleCreateWallet_begin_out)

theorem create_wallet_guarded_by_button_only_witness:
  "showBackendPanel (ui world_creating_wallet)
   \<and> click_createWallet world_creating_wallet = world_creating_wallet
   \<and> click_createWallet world_panel = handleCreateWallet_begin (ui world_panel) world_panel
   \<and> out (handleCreateWallet_begin (ui world_creating_wallet) world_creating_wallet) =
       [Fetch ''/API/create-wallet'' None]"
  using create_wallet_guarded_by_button_only
          [where w = world_creating_wallet and v = world_panel
             and c = "ui world_creating_wallet" and w' = world_creating_wallet]
  by (simp add: world_creating_wallet_def world_panel_def busy_def initial_state_def)

text \<open>
  C3, as stated, fails. In a state with a wallet present and a creation in flight, the
  operation sends the request, and on an ok response it replaces the wallet in the state
  and in local storage. Nor does the button stop a second creation while one is in flight:
  a Get Status operation started before the click and settling after it writes back the
  flags of its own render, the \<open>wallet\<close> flag is gone, and a second click sends a second
  request.
\<close>

theorem create_wallet_not_guarded_counterexample:
  "busy (loading (ui world_creating_wallet)) ''wallet''
   \<and> wallet (ui world_creating_wallet) = wallet_A
   \<and> truthy (wallet (ui world_creating_wallet))
   \<and> out (handleCreateWallet_begin (ui world_creating_wallet) world_creating_wallet) =
       [Fetch ''/API/create-wallet'' None]
   \<and> wallet (ui (handleCreateWallet engine (Response 200 (Inr wallet_B)) world_creating_wallet)) =
       wallet_B
   \<and> localStorage (handleCreateWallet engine (Response 200 (Inr wallet_B)) world_creating_wallet)
       ''bbq-wallet'' = Some wallet_B_text
   \<and> wallet_B \<noteq> wallet_A
   \<and> out world_wallet_started =
       [GetStatus (Obj [(''id'', Str ''0x5ub1''), (''testnet'', Bool True)]),
        Fetch ''/API/create-wallet'' None]
   \<and> busy (loading (ui world_wallet_started)) ''wallet''
   \<and> loading (ui world_status_done) ''wallet'' = None
   \<and> wallet (ui world_status_done) = Null
   \<and> out world_second_click =
       [GetStatus (Obj [(''id'', Str ''0x5ub1''), (''testnet'', Bool True)]),
        Fetch ''/API/create-wallet'' None,
        Fetch ''/API/create-wallet'' None]"
  by (simp add: world_creating_wallet_def busy_def sample_values handleCreateWallet_def
        handleCreateWallet_begin_def handleCreateWallet_resume_def catch_finally_Inr
        and_then_def ok_def setters world_second_click_def world_status_done_def
        world_wallet_started_def world_status_started_def world_panel_def
        click_createWallet_def createWallet_disabled_def handleGetStatus_begin_def
        handleGetStatus_resume_def status_id_def js_or_def get_optional_def)

lemma handleRevokeSubscription_ok:
  assumes "truthy (subscription (ui w))" "ok s"
  shows "handleRevokeSubscription js (Response s (Inr data)) w =
     w\<lparr>ui := (ui w)\<lparr>loading := (loading (ui w))(''revoke'' \<mapsto> False), error := Null,
                     success := Str (''Subscription revoked successfully! You can still ''
                          @ ''try to charge to validate the revoke took effect.'')\<rparr>,
       out := out w @ [Fetch ''/API/revoke-subscription''
                         (Some (JSON_stringify js
                            (Obj [(''subscriptionId'', field (subscription (ui w)) ''id'')]))),
                       SetTimeout (HandleGetStatus (ui w) Undefined) 2000]\<rparr>"
  using assms
  by (simp add: handleRevokeSubscription_def handleRevokeSubscription_begin_def issued_def
        handleRevokeSubscription_resume_def Let_def and_then_def catch_finally_Inr setters)

lemma handleGetStatus_begin_frame:
  "subscription (ui (handleGetStatus_begin c arg w)) = subscription (ui w)
   \<and> wallet (ui (handleGetStatus_begin c arg w)) = wallet (ui w)
   \<and> localStorage (handleGetStatus_begin c arg w) = localStorage w"
  by (simp add: handleGetStatus_begin_def setters)

lemma handleGetStatus_resume_frame:
  "subscription (ui (handleGetStatus_resume js c r w)) = subscription (ui w)
   \<and> wallet (ui (handleGetStatus_resume js c r w)) = wallet (ui w)
   \<and> localStorage (handleGetStatus_resume js c r w) = localStorage w"
  by (simp add: handleGetStatus_resume_def catch_finally_def and_then_def setters
        split: sum.splits)

text \<open>
  C5. After a revoke operation that received an ok response, the subscription, the wallet
  and local storage are as before, and a status refresh is scheduled; they are still as
  before after that refresh has run, whatever it fetched. A charge attempt made then passes
  the guard of the charge operation and sends its request, provided the wallet, which the
  guard also requires, is present.
\<close>

theorem revoke_keeps_subscription:
  assumes "truthy (subscription (ui w))" and "ok s"
    and "w' = handleRevokeSubscription js (Response s (Inr data)) w"
    and "w'' = handleGetStatus_resume js (ui w) r (fire (HandleGetStatus (ui w) Undefined) w')"
  shows "subscription (ui w') = subscription (ui w)
    \<and> localStorage w' = localStorage w
    \<and> wallet (ui w') = wallet (ui w)
    \<and> last (out w') = SetTimeout (HandleGetStatus (ui w) Undefined) 2000
    \<and> subscription (ui w'') = subscription (ui w)
    \<and> localStorage w'' = localStorage w
    \<and> wallet (ui w'') = wallet (ui w)
    \<and> (truthy (wallet (ui w)) \<longrightarrow>
         out (handleChargeSubscription_begin js (ui w') w') =
           out w' @ [Fetch ''/API/charge-subscription''
                      (Some (JSON_stringify js
                        (Obj [(''subscriptionId'', field (subscription (ui w)) ''id''),
                              (''amount'', Str (chargeAmount (ui w))),
                              (''recipient'', js_or (Str (recipientAddress (ui w))) Undefined)])))]
       \<and> out (handleChargeSubscription_begin js (ui w'') w'') =
           out w'' @ [Fetch ''/API/charge-subscription''
                      (Some (JSON_stringify js
                        (Obj [(''subscriptionId'', field (subscription (ui w)) ''id''),
                              (''amount'', Str (chargeAmount (ui w))),
                              (''recipient'', js_or (Str (recipientAddress (ui w))) Undefined)])))])"
proof -
  have w': "w' = w\<lparr>ui := (ui w)\<lparr>loading := (loading (ui w))(''revoke'' \<mapsto> False), error := Null,
                     success := Str (''Subscription revoked successfully! You can still ''
                          @ ''try to charge to validate the revoke took effect.'')\<rparr>,
       out := out w @ [Fetch ''/API/revoke-subscription''
                         (Some (JSON_stringify js
                            (Obj [(''subscriptionId'', field (subscription (ui w)) ''id'')]))),
                       SetTimeout (HandleGetStatus (ui w) Undefined) 2000]\<rparr>"
    using assms by (simp add: handleRevokeSubscription_ok)
  have a: "subscription (ui w') = subscription (ui w)" "localStorage w' = localStorage w"
    "wallet (ui w') = wallet (ui w)" "chargeAmount (ui w') = chargeAmount (ui w)"
    "recipientAddress (ui w') = recipientAddress (ui w)"
    "last (out w') = SetTimeout (HandleGetStatus (ui w) Undefined) 2000"
    by (simp_all add: w')
  have b: "subscription (ui w'') = subscription (ui w)" "localStorage w'' = localStorage w"
    "wallet (ui w'') = wallet (ui w)"
    using assms(4) a by (simp_all add: handleGetStatus_resume_frame handleGetStatus_begin_frame)
  have c: "chargeAmount (ui w'') = chargeAmount (ui w)"
    "recipientAddress (ui w'') = recipientAddress (ui w)"
    using assms(4) a
    by (simp_all add: handleGetStatus_resume_def handleGetStatus_begin_def catch_finally_def
          and_then_def setters split: sum.splits)
  show ?thesis
    using assms(1) a b c
    by (simp add: handleChargeSubscription_begin_guarded emit_def setSuccess_def setError_def
          setLoading_def)
qed

theorem revoke_keeps_subscription_witness:
  "subscription (ui world_revoked) = subscription_1
   \<and> localStorage world_revoked = [''bbq-subscription'' \<mapsto> subscription_1_text]
   \<and> wallet (ui world_revoked) = wallet_A
   \<and> last (out world_revoked) = SetTimeout (HandleGetStatus (ui world_subscribed) Undefined) 2000
   \<and> subscription (ui world_refreshed) = subscription_1
   \<and> localStorage world_refreshed = [''bbq-subscription'' \<mapsto> subscription_1_text]
   \<and> wallet (ui world_refreshed) = wallet_A
   \<and> out (handleChargeSubscription_begin engine (ui world_revoked) world_revoked) =
       out world_revoked @ [Fetch ''/API/charge-subscription'' (Some charge_request_1_text)]
   \<and> out (handleChargeSubscription_begin engine (ui world_refreshed) world_refreshed) =
       out world_refreshed @ [Fetch ''/API/charge-subscription'' (Some charge_request_1_text)]"
  using revoke_keeps_subscription
          [where w = world_subscribed and s = 200 and js = engine and data = body_revoke_ok
             and w' = world_revoked and w'' = world_refreshed and r = "Inr status_revoked"]
  by (simp add: world_revoked_def world_refreshed_def ok_def)
     (simp add: world_subscribed_def js_or_def sample_values)

text \<open>
  C6. Create Subscription invoked while no wallet is present does not call the platform's
  subscribe operation, leaves the subscription (and everything but the banner) as it was,
  and sets the error banner \<open>Please create a wallet first\<close>.
\<close>

theorem create_subscription_requires_wallet:
  assumes "\<not> truthy (wallet (ui w))"
  shows "handleCreateSubscription js r w = setError (Str ''Please create a wallet first'') w
    \<and> out (handleCreateSubscription js r w) = out w
    \<and> subscription (ui (handleCreateSubscription js r w)) = subscription (ui w)
    \<and> localStorage (handleCreateSubscription js r w) = localStorage w
    \<and> error (ui (handleCreateSubscription js r w)) = Str ''Please create a wallet first''"
  using assms
  by (simp add: handleCreateSubscription_def handleCreateSubscription_begin_def Let_def
        issued_def setters)

theorem create_subscription_requires_wallet_witness:
  "handleCreateSubscription engine (Inr subscription_1) world_fresh =
     setError (Str ''Please create a wallet first'') world_fresh
   \<and> out (handleCreateSubscription engine (Inr subscription_1) world_fresh) = []
   \<and> subscription (ui (handleCreateSubscription engine (Inr subscription_1) world_fresh)) = Null
   \<and> localStorage (handleCreateSubscription engine (Inr subscription_1) world_fresh) = Map.empty
   \<and> error (ui (handleCreateSubscription engine (Inr subscription_1) world_fresh)) =
       Str ''Please create a wallet first''"
  using create_subscription_requires_wallet
          [where w = world_fresh and js = engine and r = "Inr subscription_1"]
  by (simp add: world_fresh_def initial_state_def setError_def)

lemma handleGetStatus_guarded:
  "truthy (status_id (ui w) arg) \<Longrightarrow>
   handleGetStatus js arg r w =
     handleGetStatus_resume js (ui w) r
       (emit (GetStatus (Obj [(''id'', status_id (ui w) arg), (''testnet'', Bool True)]))
         (setError Null (setLoading ((loading (ui w))(''status'' \<mapsto> True)) w)))"
  by (simp add: handleGetStatus_def handleGetStatus_begin_def Let_def issued_def setters)

text \<open>
  C7. A Get Status operation that has a subscription id: on success the stored status is
  the fetched one, whatever was stored before; on failure the stored status is the prior
  one, and when the failure is an exception object the operation changes nothing but the
  error banner, set to the exception's message or the fallback text, and its own busy flag.
\<close>

theorem get_status_replaces_or_keeps:
  assumes "truthy (status_id (ui w) arg)"
  shows "subscriptionStatus (ui (handleGetStatus js arg (Inr fetched) w)) = Some fetched
    \<and> subscriptionStatus (ui (handleGetStatus js arg (Inl err) w)) = subscriptionStatus (ui w)
    \<and> (\<not> nullish err \<longrightarrow>
         handleGetStatus js arg (Inl err) w =
           w\<lparr>ui := (ui w)\<lparr>loading := (loading (ui w))(''status'' \<mapsto> False),
                           error := js_or (field err ''message'')
                                          (Str ''Failed to get subscription status'')\<rparr>,
             out := out w @ [GetStatus (Obj [(''id'', status_id (ui w) arg),
                                             (''testnet'', Bool True)])]\<rparr>)"
  using assms
  by (auto simp: handleGetStatus_guarded handleGetStatus_resume_def and_then_def
        catch_finally_def get_def setters split: sum.splits)

theorem get_status_replaces_or_keeps_witness:
  "subscriptionStatus (ui world_subscribed) = Some status_active
   \<and> subscriptionStatus (ui (handleGetStatus engine Undefined (Inr status_revoked) world_subscribed)) =
       Some status_revoked
   \<and> subscriptionStatus (ui (handleGetStatus engine Undefined (Inl (Error ''Network request failed''))
         world_subscribed)) = Some status_active
   \<and> error (ui (handleGetStatus engine Undefined (Inl (Error ''Network request failed''))
         world_subscribed)) = Str ''Network request failed''"
  using get_status_replaces_or_keeps
          [where w = world_subscribed and arg = Undefined and js = engine
             and fetched = status_revoked and err = "Error ''Network request failed''"]
  by (simp add: world_subscribed_def status_id_def js_or_def get_optional_def subscription_1_def
        Error_def)

lemma field_Str_truthy: "field v p = Str i \<Longrightarrow> truthy v \<and> \<not> nullish v"
  by (cases v) auto

lemma restore_wallet_frame:
  "\<exists>wl st. restore_wallet js \<lparr>ui = initial_state, localStorage = store, out = []\<rparr> =
             \<lparr>ui = initial_state\<lparr>wallet := wl\<rparr>, localStorage = st, out = []\<rparr>
           \<and> st ''bbq-subscription'' = store ''bbq-subscription''"
proof (cases "store ''bbq-wallet''")
  case None
  then have "restore_wallet js \<lparr>ui = initial_state, localStorage = store, out = []\<rparr> =
             \<lparr>ui = initial_state\<lparr>wallet := Null\<rparr>, localStorage = store, out = []\<rparr>"
    by (simp add: restore_wallet_def initial_state_def)
  then show ?thesis by blast
next
  case (Some t)
  show ?thesis
  proof (cases "t = []")
    case True
    with Some have "restore_wallet js \<lparr>ui = initial_state, localStorage = store, out = []\<rparr> =
             \<lparr>ui = initial_state\<lparr>wallet := Null\<rparr>, localStorage = store, out = []\<rparr>"
      by (simp add: restore_wallet_def initial_state_def)
    then show ?thesis by blast
  next
    case False
    show ?thesis
    proof (cases "JSON_parse js t")
      case (Inl err)
      with Some False
      have "restore_wallet js \<lparr>ui = initial_state, localStorage = store, out = []\<rparr> =
             \<lparr>ui = initial_state\<lparr>wallet := Null\<rparr>,
              localStorage = store(''bbq-wallet'' := None), out = []\<rparr>"
        by (simp add: restore_wallet_def initial_state_def removeItem_def)
      moreover have "(store(''bbq-wallet'' := None)) ''bbq-subscription'' = store ''bbq-subscription''"
        by simp
      ultimately show ?thesis by blast
    next
      case (Inr parsed)
      with Some False
      have "restore_wallet js \<lparr>ui = initial_state, localStorage = store, out = []\<rparr> =
             \<lparr>ui = initial_state\<lparr>wallet := parsed\<rparr>, localStorage = store, out = []\<rparr>"
        by (simp add: restore_wallet_def setWallet_def)
      then show ?thesis by blast
    qed
  qed
qed

lemma load_effect_restores:
  assumes "store ''bbq-subscription'' = Some t" "t \<noteq> []" "JSON_parse js t = Inr v"
  shows "\<exists>wl st. load_effect js \<lparr>ui = initial_state, localStorage = store, out = []\<rparr> =
             \<lparr>ui = initial_state\<lparr>wallet := wl, subscription := v\<rparr>, localStorage = st, out = []\<rparr>"
proof -
  obtain wl st where
    rw: "restore_wallet js \<lparr>ui = initial_state, localStorage = store, out = []\<rparr> =
          \<lparr>ui = initial_state\<lparr>wallet := wl\<rparr>, localStorage = st, out = []\<rparr>"
    and st: "st ''bbq-subscription'' = store ''bbq-subscription''"
    using restore_wallet_frame by blast
  have "load_effect js \<lparr>ui = initial_state, localStorage = store, out = []\<rparr> =
          \<lparr>ui = initial_state\<lparr>wallet := wl, subscription := v\<rparr>, localStorage = st, out = []\<rparr>"
    using assms st by (simp add: load_effect_def rw restore_subscription_def setSubscription_def)
  then show ?thesis by blast
qed

lemma render_at_rest: "status_dep (ui w) = d \<Longrightarrow> render d w = w"
  by (simp add: render.simps)

lemma mount_restored:
  assumes "store ''bbq-subscription'' = Some t" "t \<noteq> []" "JSON_parse js t = Inr v"
    and "field v ''id'' = Str i"
  shows "\<exists>wl st. mount js store =
           \<lparr>ui = initial_state\<lparr>wallet := wl, subscription := v,
                                loading := [''status'' \<mapsto> True]\<rparr>,
            localStorage = st,
            out = [GetStatus (Obj [(''id'', Str i), (''testnet'', Bool True)])]\<rparr>"
proof -
  obtain wl st where
    le: "load_effect js \<lparr>ui = initial_state, localStorage = store, out = []\<rparr> =
          \<lparr>ui = initial_state\<lparr>wallet := wl, subscription := v\<rparr>, localStorage = st, out = []\<rparr>"
    using assms load_effect_restores [where store = store and t = t and js = js and v = v]
    by blast
  let ?w1 = "\<lparr>ui = initial_state\<lparr>wallet := wl, subscription := v\<rparr>, localStorage = st, out = []\<rparr>"
  let ?w2 = "\<lparr>ui = initial_state\<lparr>wallet := wl, subscription := v,
                                loading := [''status'' \<mapsto> True]\<rparr>,
            localStorage = st,
            out = [GetStatus (Obj [(''id'', Str i), (''testnet'', Bool True)])]\<rparr>"
  have v: "truthy v" "\<not> nullish v" using field_Str_truthy [OF assms(4)] by simp_all
  have first: "checkStatus_begin initial_state ?w1 = ?w1"
    by (simp add: checkStatus_begin_def initial_state_def)
  have dep0: "status_dep initial_state = Undefined"
    by (simp add: status_dep_def get_optional_def initial_state_def)
  have dep1: "status_dep (ui ?w1) = Str i"
    using v assms(4) by (simp add: status_dep_def get_optional_def)
  have second: "checkStatus_begin (ui ?w1) ?w1 = ?w2"
    using v assms(4)
    by (simp add: checkStatus_begin_def initial_state_def busy_def setters)
  have dep2: "status_dep (ui ?w2) = Str i"
    using v assms(4) by (simp add: status_dep_def get_optional_def)
  have "render Undefined ?w1 = render (Str i) ?w2"
    using dep1 second by (subst render.simps) simp
  also have "\<dots> = ?w2" using dep2 by (rule render_at_rest)
  finally have "mount js store = ?w2"
    by (simp add: mount_def le first dep0)
  then show ?thesis by blast
qed

lemma checkStatus_resume_frame:
  "subscription (ui (checkStatus_resume js r w)) = subscription (ui w)
   \<and> filter is_GetStatus (out (checkStatus_resume js r w)) = filter is_GetStatus (out w)"
  by (simp add: checkStatus_resume_def Let_def setters split: sum.splits)

lemma settle_frame:
  "filter is_GetStatus (out (settle js r w)) = filter is_GetStatus (out w)"
proof -
  have "status_dep (ui (checkStatus_resume js r w)) = status_dep (ui w)"
    by (simp add: status_dep_def checkStatus_resume_frame)
  then have "settle js r w = checkStatus_resume js r w"
    by (simp add: settle_def render_at_rest)
  then show ?thesis by (simp add: checkStatus_resume_frame)
qed

text \<open>
  C9. When local storage holds a subscription with a string id, mounting the component
  issues exactly one status fetch, for that id, and leaves the status flag busy; when that
  fetch has settled, with a status or with a failure, and the component has rendered again,
  the fetches issued are still that one.
\<close>

theorem restored_subscription_fetches_status_once:
  assumes "store ''bbq-subscription'' = Some t" and "t \<noteq> []" and "JSON_parse js t = Inr v"
    and "field v ''id'' = Str i"
  shows "out (mount js store) = [GetStatus (Obj [(''id'', Str i), (''testnet'', Bool True)])]
    \<and> busy (loading (ui (mount js store))) ''status''
    \<and> filter is_GetStatus (out (settle js r (mount js store))) =
        [GetStatus (Obj [(''id'', Str i), (''testnet'', Bool True)])]"
proof -
  obtain wl st where m: "mount js store =
           \<lparr>ui = initial_state\<lparr>wallet := wl, subscription := v,
                                loading := [''status'' \<mapsto> True]\<rparr>,
            localStorage = st,
            out = [GetStatus (Obj [(''id'', Str i), (''testnet'', Bool True)])]\<rparr>"
    using assms mount_restored [where store = store and t = t and js = js and v = v and i = i]
    by blast
  show ?thesis
    by (simp add: settle_frame) (simp add: m busy_def)
qed

theorem restored_subscription_fetches_status_once_witness:
  "out (mount engine store_subscription) =
     [GetStatus (Obj [(''id'', Str ''0x5ub1''), (''testnet'', Bool True)])]
   \<and> busy (loading (ui (mount engine store_subscription))) ''status''
   \<and> filter is_GetStatus (out (settle engine (Inr status_active) (mount engine store_subscription))) =
       [GetStatus (Obj [(''id'', Str ''0x5ub1''), (''testnet'', Bool True)])]"
  using restored_subscription_fetches_status_once
          [where store = store_subscription and t = subscription_1_text and js = engine
             and v = subscription_1 and i = "''0x5ub1''" and r = "Inr status_active"]
  by (simp add: store_subscription_def subscription_1_text_def engine_def subscription_1_def
        parsed_def)

text \<open>
  C10. A response of the charge handler other than the success response has status 400 and
  the body \<open>{error}\<close>, or status 500 and the body \<open>{success, error}\<close> with a truthy
  \<open>error\<close>. Its body has no \<open>message\<close> and no \<open>details\<close>, so the banner object the
  charge operation builds from it has undefined details, and a message that is the
  \<open>error\<close> value again (or undefined, for \<open>Insufficient Gas\<close>).
\<close>

theorem charge_failure_body_has_no_message_or_details:
  assumes "snd (POST_charge_subscription js e charge rq) = Inr r" and "status r \<noteq> 200"
    and "truthy (wallet (ui w))" and "truthy (subscription (ui w))"
  shows "((status r = 400 \<and> body r = Obj [(''error'', Str ''Missing subscriptionId'')])
          \<or> (status r = 500
              \<and> (\<exists>m. truthy m \<and> body r = Obj [(''success'', Bool False), (''error'', m)])))
    \<and> field (body r) ''message'' = Undefined
    \<and> field (body r) ''details'' = Undefined
    \<and> error (ui (handleChargeSubscription js' (Response (status r) (Inr (body r))) w)) =
        Obj [(''title'', field (body r) ''error''),
             (''message'', if field (body r) ''error'' = Str ''Insufficient Gas'' then Undefined
                           else field (body r) ''error''),
             (''details'', Undefined),
             (''type'', if field (body r) ''error'' = Str ''Insufficient Gas'' then Str ''gas''
                        else Str ''error'')]"
proof -
  have shape: "(status r = 400 \<and> body r = Obj [(''error'', Str ''Missing subscriptionId'')])
       \<or> (status r = 500 \<and> (\<exists>m. truthy m \<and> body r = Obj [(''success'', Bool False), (''error'', m)]))"
    using assms(1,2) by (rule charge_failure_response)
  then have f: "field (body r) ''message'' = Undefined" "field (body r) ''details'' = Undefined"
    "truthy (field (body r) ''error'')" "\<not> nullish (body r)" "\<not> ok (status r)"
    by (auto simp: ok_def)
  have "error (ui (handleChargeSubscription js' (Response (status r) (Inr (body r))) w)) =
        Obj [(''title'', field (body r) ''error''),
             (''message'', if field (body r) ''error'' = Str ''Insufficient Gas'' then Undefined
                           else field (body r) ''error''),
             (''details'', Undefined),
             (''type'', if field (body r) ''error'' = Str ''Insufficient Gas'' then Str ''gas''
                        else Str ''error'')]"
    using assms(3,4) f
    by (simp add: handleChargeSubscription_failure js_or_def)
  with shape f show ?thesis by blast
qed

theorem charge_failure_body_has_no_message_or_details_witness:
  "field (body response_revoked) ''message'' = Undefined
   \<and> field (body response_revoked) ''details'' = Undefined
   \<and> error (ui (handleChargeSubscription engine
        (Response (status response_revoked) (Inr (body response_revoked))) world_subscribed)) =
       Obj [(''title'', Str ''Subscription has been revoked''),
            (''message'', Str ''Subscription has been revoked''),
            (''details'', Undefined),
            (''type'', Str ''error'')]"
  using charge_failure_body_has_no_message_or_details
          [where js = engine and e = env_0 and charge = throws_with_message
             and rq = "Inr request_id_only" and r = response_revoked and w = world_subscribed
             and js' = engine]
  by (simp add: POST_charge_id_only throws_with_message_def and_then_def Error_def
        catch_500_not_nullish response_revoked_def body_revoked_def world_subscribed_def
        wallet_A_def subscription_1_def)

end
